theory Spec2Isabelle
  imports Main
begin

section \<open>JavaScript values\<close>

text \<open>
  Values that reach the page from the transport or from \<^verbatim>\<open>JSON.parse\<close> are JSON
  values. A number is kept as its lexeme, and the one thing read off a number is whether
  it is zero; \<open>None\<close> of type \<open>jsval\<close> is JavaScript's \<^verbatim>\<open>undefined\<close>.
\<close>

datatype json =
    JNull
  | JBool bool
  | JNum string
  | JStr string
  | JArr "json list"
  | JObj "(string \<times> json) list"

type_synonym jsval = "json option"

datatype js_error = SyntaxError | TypeError | TransportError

text \<open>
  A number is zero when the double nearest to its decimal lexeme is: the mantissa has no
  non-zero digit, or the value is so small that it rounds to zero, which is the case up
  to and including half of the least positive double, that is two to the power of
  minus 1075.
\<close>

definition is_digit :: "char \<Rightarrow> bool" where
  "is_digit c \<longleftrightarrow> c \<in> set ''0123456789''"

definition digits_val :: "string \<Rightarrow> int" where
  "digits_val ds = foldl (\<lambda>n c. 10 * n + (of_char c - 48)) 0 (filter is_digit ds)"

definition num_is_zero :: "string \<Rightarrow> bool" where
  "num_is_zero l =
     (let is_e = (\<lambda>c. c = CHR ''e'' \<or> c = CHR ''E'');
          mant = takeWhile (\<lambda>c. \<not> is_e c) l;
          ex = drop 1 (dropWhile (\<lambda>c. \<not> is_e c) l);
          m = digits_val mant;
          frac = length (filter is_digit (dropWhile (\<lambda>c. c \<noteq> CHR ''.'') mant));
          e = (if CHR ''-'' \<in> set ex then - digits_val ex else digits_val ex);
          k = e - int frac
      in m = 0 \<or> (k < 0 \<and> m * 2 ^ 1075 \<le> 10 ^ nat (- k)))"

text \<open>JavaScript's \<^verbatim>\<open>ToBoolean\<close>, as used by \<^verbatim>\<open>if (x)\<close>, \<^verbatim>\<open>!x\<close>, \<^verbatim>\<open>x && y\<close>, \<^verbatim>\<open>x || y\<close>.\<close>

fun truthy :: "jsval \<Rightarrow> bool" where
  "truthy None = False"
| "truthy (Some JNull) = False"
| "truthy (Some (JBool b)) = b"
| "truthy (Some (JNum l)) = (\<not> num_is_zero l)"
| "truthy (Some (JStr s)) = (s \<noteq> [])"
| "truthy (Some (JArr xs)) = True"
| "truthy (Some (JObj kvs)) = True"

text \<open>
  Property read \<^verbatim>\<open>v.k\<close> on a value that is neither \<^verbatim>\<open>null\<close> nor \<^verbatim>\<open>undefined\<close>, for
  the property names the page reads other than \<^verbatim>\<open>length\<close> (none of them is inherited
  from a prototype, so only an object can have them).
  A repeated key of an object keeps its last value, as \<^verbatim>\<open>JSON.parse\<close> does.
\<close>

fun js_get :: "json \<Rightarrow> string \<Rightarrow> jsval" where
  "js_get (JObj kvs) k = map_of (rev kvs) k"
| "js_get v k = None"

text \<open>Property read on any value: \<^verbatim>\<open>null.k\<close> and \<^verbatim>\<open>undefined.k\<close> throw a TypeError.\<close>

fun js_prop :: "jsval \<Rightarrow> string \<Rightarrow> js_error + jsval" where
  "js_prop None k = Inl TypeError"
| "js_prop (Some JNull) k = Inl TypeError"
| "js_prop (Some v) k = Inr (js_get v k)"

text \<open>A read guarded by \<^verbatim>\<open>x && x.k\<close>, or made after an earlier read of \<open>x\<close> succeeded.\<close>

definition js_read :: "jsval \<Rightarrow> string \<Rightarrow> jsval" where
  "js_read x k = (case js_prop x k of Inr v \<Rightarrow> v | Inl e \<Rightarrow> None)"

text \<open>\<^verbatim>\<open>x.length === 0\<close> on a truthy value.\<close>

fun length_is_zero :: "jsval \<Rightarrow> bool" where
  "length_is_zero (Some (JArr xs)) = (xs = [])"
| "length_is_zero (Some (JStr s)) = (s = [])"
| "length_is_zero (Some (JObj kvs)) =
     (case map_of (rev kvs) ''length'' of Some (JNum l) \<Rightarrow> num_is_zero l | _ \<Rightarrow> False)"
| "length_is_zero v = False"

text \<open>\<^verbatim>\<open>a || b\<close>\<close>

definition js_or :: "jsval \<Rightarrow> jsval \<Rightarrow> jsval" where
  "js_or a b = (if truthy a then a else b)"

section \<open>\<^verbatim>\<open>JSON.parse\<close>\<close>

text \<open>
  The JSON grammar of ECMA-404, which \<^verbatim>\<open>JSON.parse\<close> accepts: white space, the three
  literals, numbers, strings with their escapes, arrays and objects. The recursion on nested values is bounded by a fuel that
  no text exhausts before it is rejected for another reason or accepted: a nesting level
  costs two units and at least two characters, a further element one unit and at least
  two characters.
\<close>

definition is_ws :: "char \<Rightarrow> bool" where
  "is_ws c \<longleftrightarrow> c = CHR 0x20 \<or> c = CHR 0x09 \<or> c = CHR 0x0A \<or> c = CHR 0x0D"

definition skip_ws :: "string \<Rightarrow> string" where
  "skip_ws cs = dropWhile is_ws cs"

definition is_hex :: "char \<Rightarrow> bool" where
  "is_hex c \<longleftrightarrow> c \<in> set ''0123456789abcdefABCDEF''"

text \<open>The fraction and the exponent of a number, both optional.\<close>

definition lex_fraction :: "string \<Rightarrow> (string \<times> string) option" where
  "lex_fraction cs =
     (case cs of
        [] \<Rightarrow> Some ([], cs)
      | c # r \<Rightarrow>
          if c = CHR ''.'' then
            (if takeWhile is_digit r = [] then None
             else Some (c # takeWhile is_digit r, dropWhile is_digit r))
          else Some ([], cs))"

definition lex_exponent :: "string \<Rightarrow> (string \<times> string) option" where
  "lex_exponent cs =
     (case cs of
        [] \<Rightarrow> Some ([], cs)
      | c # r \<Rightarrow>
          if c = CHR ''e'' \<or> c = CHR ''E'' then
            (let sg = (case r of
                         [] \<Rightarrow> []
                       | d # r' \<Rightarrow> if d = CHR ''+'' \<or> d = CHR ''-'' then [d] else []);
                 r1 = drop (length sg) r
             in if takeWhile is_digit r1 = [] then None
                else Some (c # sg @ takeWhile is_digit r1, dropWhile is_digit r1))
          else Some ([], cs))"

definition lex_number :: "string \<Rightarrow> (string \<times> string) option" where
  "lex_number cs =
     (let sg = (case cs of [] \<Rightarrow> [] | c # r \<Rightarrow> if c = CHR ''-'' then [c] else []);
          r0 = drop (length sg) cs
      in case r0 of
           [] \<Rightarrow> None
         | c # r1 \<Rightarrow>
             if \<not> is_digit c then None
             else
               (let ds = (if c = CHR ''0'' then [c] else c # takeWhile is_digit r1);
                    r2 = (if c = CHR ''0'' then r1 else dropWhile is_digit r1)
                in case lex_fraction r2 of
                     None \<Rightarrow> None
                   | Some (fr, r3) \<Rightarrow>
                       (case lex_exponent r3 of
                          None \<Rightarrow> None
                        | Some (ex, r4) \<Rightarrow> Some (sg @ ds @ fr @ ex, r4))))"

text \<open>What a single-character escape stands for.\<close>

definition unescape :: "char \<Rightarrow> char option" where
  "unescape e =
     (if e = CHR 0x22 \<or> e = CHR 0x5C \<or> e = CHR ''/'' then Some e
      else if e = CHR ''b'' then Some (CHR 0x08)
      else if e = CHR ''f'' then Some (CHR 0x0C)
      else if e = CHR ''n'' then Some (CHR 0x0A)
      else if e = CHR ''r'' then Some (CHR 0x0D)
      else if e = CHR ''t'' then Some (CHR 0x09)
      else None)"

text \<open>The four hexadecimal digits of a code-unit escape, and the unit they write.\<close>

definition hex_val :: "char \<Rightarrow> nat" where
  "hex_val c =
     (if is_digit c then of_char c - 48
      else if c \<in> set ''abcdef'' then of_char c - 87
      else of_char c - 55)"

definition hex4 :: "string \<Rightarrow> nat option" where
  "hex4 cs =
     (if length (take 4 cs) = 4 \<and> list_all is_hex (take 4 cs)
      then Some (foldl (\<lambda>n c. 16 * n + hex_val c) 0 (take 4 cs))
      else None)"

text \<open>
  Texts are held as UTF-8. A code point becomes its bytes; a lone surrogate, which has no
  UTF-8 form of its own, is written in the three-byte pattern of its value.
\<close>

definition utf8 :: "nat \<Rightarrow> string" where
  "utf8 n =
     (if n < 128 then [char_of n]
      else if n < 2048 then [char_of (192 + n div 64), char_of (128 + n mod 64)]
      else if n < 65536 then
        [char_of (224 + n div 4096), char_of (128 + n div 64 mod 64), char_of (128 + n mod 64)]
      else
        [char_of (240 + n div 262144), char_of (128 + n div 4096 mod 64),
         char_of (128 + n div 64 mod 64), char_of (128 + n mod 64)])"

text \<open>The low surrogate written by an escape at the head of the text, if there is one.\<close>

definition low_surrogate_at :: "string \<Rightarrow> nat option" where
  "low_surrogate_at r =
     (case r of
        b # v # r' \<Rightarrow>
          if b = CHR 0x5C \<and> v = CHR ''u'' then
            (case hex4 r' of
               Some m \<Rightarrow> if 56320 \<le> m \<and> m < 57344 then Some m else None
             | None \<Rightarrow> None)
          else None
      | _ \<Rightarrow> None)"

definition prepend :: "string \<Rightarrow> (string \<times> string) option \<Rightarrow> (string \<times> string) option" where
  "prepend p res = map_option (\<lambda>(str, r). (p @ str, r)) res"

text \<open>
  A string, read from behind its opening quote up to the closing one; \<open>k\<close> characters
  of an escape already decoded are passed over first. A high surrogate followed by the
  escape of a low one is the code point of the pair.
\<close>

fun lex_string_from :: "nat \<Rightarrow> string \<Rightarrow> (string \<times> string) option" where
  "lex_string_from k [] = None"
| "lex_string_from (Suc k) (c # cs) = lex_string_from k cs"
| "lex_string_from 0 (c # cs) =
     (if c = CHR 0x22 then Some ([], cs)
      else if c = CHR 0x5C then
        (case cs of
           [] \<Rightarrow> None
         | e # r \<Rightarrow>
             if e = CHR ''u'' then
               (case hex4 r of
                  None \<Rightarrow> None
                | Some n \<Rightarrow>
                    (case (if 55296 \<le> n \<and> n < 56320 then low_surrogate_at (drop 4 r)
                           else None) of
                       Some m \<Rightarrow>
                         prepend (utf8 (65536 + (n - 55296) * 1024 + (m - 56320)))
                           (lex_string_from 11 cs)
                     | None \<Rightarrow> prepend (utf8 n) (lex_string_from 5 cs)))
             else
               (case unescape e of
                  None \<Rightarrow> None
                | Some d \<Rightarrow> prepend [d] (lex_string_from 1 cs)))
      else if (of_char c :: nat) < 32 then None
      else prepend [c] (lex_string_from 0 cs))"

definition lex_string :: "string \<Rightarrow> (string \<times> string) option" where
  "lex_string cs = lex_string_from 0 cs"

definition starts_with :: "string \<Rightarrow> string \<Rightarrow> bool" where
  "starts_with p cs \<longleftrightarrow> take (length p) cs = p"

fun parse_value :: "nat \<Rightarrow> string \<Rightarrow> (json \<times> string) option"
  and parse_elements :: "nat \<Rightarrow> string \<Rightarrow> json list \<Rightarrow> (json list \<times> string) option"
  and parse_members ::
    "nat \<Rightarrow> string \<Rightarrow> (string \<times> json) list \<Rightarrow> ((string \<times> json) list \<times> string) option"
where
  "parse_value 0 cs = None"
| "parse_value (Suc n) cs =
     (case skip_ws cs of
        [] \<Rightarrow> None
      | c # r \<Rightarrow>
          if c = CHR ''{'' then
            (if starts_with ''}'' (skip_ws r) then Some (JObj [], drop 1 (skip_ws r))
             else map_option (\<lambda>(kvs, r'). (JObj kvs, r')) (parse_members n r []))
          else if c = CHR ''['' then
            (if starts_with '']'' (skip_ws r) then Some (JArr [], drop 1 (skip_ws r))
             else map_option (\<lambda>(vs, r'). (JArr vs, r')) (parse_elements n r []))
          else if c = CHR 0x22 then
            map_option (\<lambda>(str, r'). (JStr str, r')) (lex_string r)
          else if starts_with ''null'' (c # r) then Some (JNull, drop 4 (c # r))
          else if starts_with ''true'' (c # r) then Some (JBool True, drop 4 (c # r))
          else if starts_with ''false'' (c # r) then Some (JBool False, drop 5 (c # r))
          else map_option (\<lambda>(l, r'). (JNum l, r')) (lex_number (c # r)))"
| "parse_elements 0 cs acc = None"
| "parse_elements (Suc n) cs acc =
     (case parse_value n cs of
        None \<Rightarrow> None
      | Some (v, r) \<Rightarrow>
          (case skip_ws r of
             [] \<Rightarrow> None
           | c # r' \<Rightarrow>
               if c = CHR '','' then parse_elements n r' (acc @ [v])
               else if c = CHR '']'' then Some (acc @ [v], r')
               else None))"
| "parse_members 0 cs acc = None"
| "parse_members (Suc n) cs acc =
     (case skip_ws cs of
        [] \<Rightarrow> None
      | q # r \<Rightarrow>
          if q \<noteq> CHR 0x22 then None
          else
            (case lex_string r of
               None \<Rightarrow> None
             | Some (k, r1) \<Rightarrow>
                 (case skip_ws r1 of
                    [] \<Rightarrow> None
                  | c1 # r2 \<Rightarrow>
                      if c1 \<noteq> CHR '':'' then None
                      else
                        (case parse_value n r2 of
                           None \<Rightarrow> None
                         | Some (v, r3) \<Rightarrow>
                             (case skip_ws r3 of
                                [] \<Rightarrow> None
                              | c3 # r4 \<Rightarrow>
                                  if c3 = CHR '','' then parse_members n r4 (acc @ [(k, v)])
                                  else if c3 = CHR ''}'' then Some (acc @ [(k, v)], r4)
                                  else None)))))"

text \<open>\<^verbatim>\<open>JSON.parse(text)\<close>: one value, nothing but white space after it.\<close>

definition JSON_parse :: "string \<Rightarrow> js_error + json" where
  "JSON_parse txt =
     (case parse_value (2 * length txt + 2) txt of
        None \<Rightarrow> Inl SyntaxError
      | Some (v, r) \<Rightarrow> if skip_ws r = [] then Inr v else Inl SyntaxError)"

section \<open>Media tracks, the transport's objects\<close>

datatype track_kind = Audio | Video

record track =
  kind :: track_kind
  enabled :: bool
  stopped :: bool

text \<open>
  Tracks are shared objects: a stream is a list of track addresses, and the same track
  can be reached from the session, from its peer and from a video element.
\<close>

type_synonym stream = "nat list"

datatype session_handler =
    OnCallJoined | OnCallUpdated | OnCallEnded | OnDestroy | OnRoomLeft
  | OnStreamStarted | OnMediaConnected | OnRoomUserEvent

datatype client_handler = OnClientUserEvent

record peer_conn =
  peer_localStream :: "stream option"

record session =
  localStream :: "stream option"
  peer :: "peer_conn option"
  hangupRejects :: bool
  session_listeners :: "(string \<times> session_handler) list"

record client_conn =
  disconnectThrows :: bool
  client_listeners :: "(string \<times> client_handler) list"

text \<open>Calls made on the transport and on media elements, in the order they are made.\<close>

datatype ext_call =
    CreateClient
  | Dial jsval jsval jsval
  | SessionStart
  | SessionHangup
  | ClientDisconnect
  | PlaySound string
  | ShowConfetti

section \<open>The page\<close>

datatype start_content = TalkToSanta | Connecting | StartMarkup
datatype mute_content = MuteLabel | UnmuteLabel | MuteMarkup

datatype container_child =
    Placeholder string
  | VideoElem "stream option"
  | OtherElem

record gift_card =
  card_option :: nat
  card_image :: jsval
  card_alt :: jsval
  card_title :: jsval
  card_price :: jsval
  card_description :: jsval

datatype gallery_child =
    WelcomeState string
  | RetryPrompt
  | GiftCard gift_card

datatype list_result = ResultMarkup | NiceList jsval

record event_log =
  log_display :: string
  log_entries :: "jsval list"

datatype page_handler =
    OnDOMContentLoaded | OnBeforeUnload | OnResize
  | OnStartClick | OnEndClick | OnMuteClick
  | OnSettingsToggle | OnSettingsClose
  | OnEchoChange | OnNoiseChange | OnGainChange

record page =
  startBtn_display :: string
  startBtn_disabled :: bool
  startBtn_content :: start_content
  endBtn_display :: string
  muteBtn_display :: string
  muteBtn_content :: mute_content
  videoContainer :: "container_child list option"
  giftGallery_display :: string
  giftGallery_children :: "gallery_child list"
  giftShowcase_display :: string
  showcaseImage_src :: jsval
  showcaseName_text :: jsval
  showcasePrice_text :: jsval
  searchStatus_display :: string
  niceListChecker_display :: string
  listResult :: list_result
  eventLog :: "event_log option"
  jingleBells :: bool
  echoCancellation_checked :: bool
  noiseSuppression_checked :: bool
  autoGainControl_checked :: bool

section \<open>Module state\<close>

record app_state =
  client :: "client_conn option"
  roomSession :: "session option"
  isMuted :: bool
  audioSettings :: json
  tracks :: "nat \<Rightarrow> track"
  localStorage :: "string \<rightharpoonup> string"
  document :: page
  pageListeners :: "(string \<times> string \<times> page_handler) list"
  calls :: "ext_call list"

definition default_audioSettings :: json where
  "default_audioSettings =
     JObj [(''echoCancellation'', JBool True),
           (''noiseSuppression'', JBool False),
           (''autoGainControl'', JBool False)]"

section \<open>Cleanup\<close>

text \<open>\<^verbatim>\<open>resetUI\<close>: the controls, the gallery, the showcase and the search status.\<close>

definition resetUI :: "app_state \<Rightarrow> app_state" where
  "resetUI s = s\<lparr>document := (document s)
     \<lparr>startBtn_display := ''block'',
      startBtn_disabled := False,
      startBtn_content := TalkToSanta,
      endBtn_display := ''none'',
      muteBtn_display := ''none'',
      giftGallery_children := [WelcomeState ''''],
      giftShowcase_display := ''none'',
      searchStatus_display := ''none''\<rparr>\<rparr>"

text \<open>\<^verbatim>\<open>stream.getTracks().forEach(track => track.stop())\<close>\<close>

definition stop_track :: "nat \<Rightarrow> (nat \<Rightarrow> track) \<Rightarrow> (nat \<Rightarrow> track)" where
  "stop_track t ts = ts(t := (ts t)\<lparr>stopped := True\<rparr>)"

definition stop_tracks :: "stream \<Rightarrow> (nat \<Rightarrow> track) \<Rightarrow> (nat \<Rightarrow> track)" where
  "stop_tracks st ts = fold stop_track st ts"

text \<open>The video elements of the container: each attached stream is stopped.\<close>

fun stop_videos :: "container_child list \<Rightarrow> (nat \<Rightarrow> track) \<Rightarrow> (nat \<Rightarrow> track)" where
  "stop_videos [] ts = ts"
| "stop_videos (VideoElem (Some st) # cs) ts = stop_videos cs (stop_tracks st ts)"
| "stop_videos (c # cs) ts = stop_videos cs ts"

text \<open>\<^verbatim>\<open>client.disconnect()\<close> may throw; \<^verbatim>\<open>disconnect\<close> catches it.\<close>

definition client_disconnect :: "client_conn \<Rightarrow> js_error option" where
  "client_disconnect c = (if disconnectThrows c then Some TransportError else None)"

text \<open>The blocks of \<^verbatim>\<open>disconnect\<close>, in its order.\<close>

definition stop_local_stream :: "app_state \<Rightarrow> app_state" where
  "stop_local_stream s =
     (case roomSession s of
        Some rs \<Rightarrow>
          (case localStream rs of
             Some st \<Rightarrow> s\<lparr>tracks := stop_tracks st (tracks s)\<rparr>
           | None \<Rightarrow> s)
      | None \<Rightarrow> s)"

definition release_client :: "app_state \<Rightarrow> app_state" where
  "release_client s =
     (case client s of
        Some c \<Rightarrow>
          (case client_disconnect c of
             None \<Rightarrow> s\<lparr>calls := calls s @ [ClientDisconnect], client := None\<rparr>
           | Some e \<Rightarrow> s\<lparr>calls := calls s @ [ClientDisconnect], client := None\<rparr>)
      | None \<Rightarrow> s)"

definition clean_video_container :: "app_state \<Rightarrow> app_state" where
  "clean_video_container s =
     (case videoContainer (document s) of
        Some cs \<Rightarrow>
          s\<lparr>tracks := stop_videos cs (tracks s),
             document := (document s)\<lparr>videoContainer := Some [Placeholder '''']\<rparr>\<rparr>
      | None \<Rightarrow> s)"

definition disconnect :: "app_state \<Rightarrow> app_state" where
  "disconnect s =
     resetUI (clean_video_container (release_client
       ((stop_local_stream s)\<lparr>roomSession := None\<rparr>)))"

text \<open>\<^verbatim>\<open>handleRoomEnded\<close>\<close>

definition handleRoomEnded :: "app_state \<Rightarrow> app_state" where
  "handleRoomEnded s = resetUI s"

section \<open>Mute\<close>

text \<open>\<^verbatim>\<open>stream.getAudioTracks().forEach(track => { track.enabled = !isMuted })\<close>\<close>

definition getAudioTracks :: "stream \<Rightarrow> (nat \<Rightarrow> track) \<Rightarrow> nat list" where
  "getAudioTracks st ts = filter (\<lambda>t. kind (ts t) = Audio) st"

definition set_enabled :: "bool \<Rightarrow> nat \<Rightarrow> (nat \<Rightarrow> track) \<Rightarrow> (nat \<Rightarrow> track)" where
  "set_enabled b t ts = ts(t := (ts t)\<lparr>enabled := b\<rparr>)"

definition set_audio_enabled :: "stream \<Rightarrow> bool \<Rightarrow> (nat \<Rightarrow> track) \<Rightarrow> (nat \<Rightarrow> track)" where
  "set_audio_enabled st b ts = fold (set_enabled b) (getAudioTracks st ts) ts"

definition toggleMute :: "app_state \<Rightarrow> app_state" where
  "toggleMute s =
     (case roomSession s of
        None \<Rightarrow> s
      | Some rs \<Rightarrow>
          (let m = \<not> isMuted s;
               s1 = s\<lparr>isMuted := m\<rparr>;
               s2 = (case localStream rs of
                       Some st \<Rightarrow> s1\<lparr>tracks := set_audio_enabled st (\<not> m) (tracks s1)\<rparr>
                     | None \<Rightarrow>
                         (case peer rs of
                            Some p \<Rightarrow>
                              (case peer_localStream p of
                                 Some st \<Rightarrow> s1\<lparr>tracks := set_audio_enabled st (\<not> m) (tracks s1)\<rparr>
                               | None \<Rightarrow> s1)
                          | None \<Rightarrow> s1))
           in s2\<lparr>document := (document s2)
                \<lparr>muteBtn_content := (if m then UnmuteLabel else MuteLabel)\<rparr>\<rparr>))"

section \<open>Rendering domain events\<close>

text \<open>
  A function of the page either returns or throws; in both cases the assignments it has
  made stay.
\<close>

datatype completion = Normal app_state | Throw js_error app_state

fun state_of :: "completion \<Rightarrow> app_state" where
  "state_of (Normal s) = s"
| "state_of (Throw e s) = s"

definition and_then :: "completion \<Rightarrow> (app_state \<Rightarrow> completion) \<Rightarrow> completion" where
  "and_then c f = (case c of Normal s \<Rightarrow> f s | Throw e s \<Rightarrow> Throw e s)"

definition showSearchStatus :: "bool \<Rightarrow> app_state \<Rightarrow> app_state" where
  "showSearchStatus show s =
     s\<lparr>document := (document s)\<lparr>searchStatus_display := (if show then ''block'' else ''none'')\<rparr>\<rparr>"

text \<open>\<^verbatim>\<open>playSound\<close>: the audio element is looked up by id and played when it exists.\<close>

definition playSound :: "string \<Rightarrow> app_state \<Rightarrow> app_state" where
  "playSound soundId s =
     (if soundId = ''jingleBells'' \<and> jingleBells (document s)
      then s\<lparr>calls := calls s @ [PlaySound soundId]\<rparr> else s)"

text \<open>\<^verbatim>\<open>showConfetti\<close> schedules fifty pieces; the model records that it ran.\<close>

definition showConfetti :: "app_state \<Rightarrow> app_state" where
  "showConfetti s = s\<lparr>calls := calls s @ [ShowConfetti]\<rparr>"

text \<open>\<^verbatim>\<open>logEvent\<close>: newest entry first, at most twenty kept; an entry is its event type.\<close>

definition logEvent :: "jsval \<Rightarrow> jsval \<Rightarrow> app_state \<Rightarrow> app_state" where
  "logEvent ty data s =
     (case eventLog (document s) of
        None \<Rightarrow> s
      | Some l \<Rightarrow>
          if log_display l = ''none'' then s
          else s\<lparr>document := (document s)
                 \<lparr>eventLog := Some (l\<lparr>log_entries := take 20 (ty # log_entries l)\<rparr>)\<rparr>\<rparr>)"

text \<open>The fallback image is an inline SVG; its text is abbreviated here.\<close>

definition fallback_image :: json where
  "fallback_image = JStr ''data:image/svg+xml,<svg>gift</svg>''"

definition createGiftCard :: "jsval \<Rightarrow> nat \<Rightarrow> js_error + gift_card" where
  "createGiftCard gift optionNumber =
     (case js_prop gift ''image'' of
        Inl e \<Rightarrow> Inl e
      | Inr img \<Rightarrow>
          Inr \<lparr>card_option = optionNumber,
               card_image = js_or img (Some fallback_image),
               card_alt = js_read gift ''title'',
               card_title = js_or (js_read gift ''title'') (Some (JStr ''Mystery Gift'')),
               card_price = js_or (js_read gift ''price'') (Some (JStr ''Ask Santa!'')),
               card_description =
                 js_or (js_read gift ''description'')
                   (Some (JStr ''A wonderful Christmas gift!''))\<rparr>)"

text \<open>The body of \<^verbatim>\<open>gifts.forEach\<close>, from index \<open>i\<close> on.\<close>

fun append_cards :: "json list \<Rightarrow> nat \<Rightarrow> app_state \<Rightarrow> completion" where
  "append_cards [] i s = Normal s"
| "append_cards (g # gs) i s =
     (case createGiftCard (Some g) (i + 1) of
        Inl e \<Rightarrow> Throw e s
      | Inr c \<Rightarrow>
          append_cards gs (i + 1)
            (s\<lparr>document := (document s)
               \<lparr>giftGallery_children := giftGallery_children (document s) @ [GiftCard c]\<rparr>\<rparr>))"

text \<open>The element with id \<^verbatim>\<open>welcomeState\<close> is the first such child of the gallery.\<close>

fun hide_welcome :: "gallery_child list \<Rightarrow> gallery_child list" where
  "hide_welcome [] = []"
| "hide_welcome (WelcomeState d # cs) = WelcomeState ''none'' # cs"
| "hide_welcome (c # cs) = c # hide_welcome cs"

definition displayGifts :: "jsval \<Rightarrow> app_state \<Rightarrow> completion" where
  "displayGifts gifts s =
     (if \<not> truthy gifts \<or> length_is_zero gifts then Normal s
      else
        (let s1 = s\<lparr>document := (document s)
                    \<lparr>giftGallery_children := hide_welcome (giftGallery_children (document s))\<rparr>\<rparr>;
             s2 = s1\<lparr>document := (document s1)\<lparr>giftGallery_children := []\<rparr>\<rparr>
         in case gifts of
              Some (JArr xs) \<Rightarrow> append_cards xs 0 s2
            | _ \<Rightarrow> Throw TypeError s2))"

definition displaySelectedGift :: "jsval \<Rightarrow> app_state \<Rightarrow> completion" where
  "displaySelectedGift gift s =
     (let s1 = s\<lparr>document := (document s)\<lparr>giftGallery_display := ''none''\<rparr>\<rparr>
      in case js_prop gift ''image'' of
           Inl e \<Rightarrow> Throw e s1
         | Inr img \<Rightarrow>
             Normal (s1\<lparr>document := (document s1)
               \<lparr>showcaseImage_src := js_or img (Some (JStr ''placeholder.jpg'')),
                showcaseName_text := js_read gift ''title'',
                showcasePrice_text := js_read gift ''price'',
                giftShowcase_display := ''block''\<rparr>\<rparr>))"

text \<open>The panel is hidden again by a timer five seconds later; timers are not modelled.\<close>

definition displayNiceListResult :: "jsval \<Rightarrow> jsval \<Rightarrow> app_state \<Rightarrow> app_state" where
  "displayNiceListResult name status s =
     s\<lparr>document := (document s)
        \<lparr>listResult := NiceList name, niceListChecker_display := ''block''\<rparr>\<rparr>"

text \<open>The event is the \<^verbatim>\<open>event\<close> property of the message when it has one, else the message.\<close>

definition eventData_of :: "jsval \<Rightarrow> jsval" where
  "eventData_of params =
     (if truthy params \<and> truthy (js_read params ''event'')
      then js_read params ''event'' else params)"

definition handleUserEvent :: "jsval \<Rightarrow> app_state \<Rightarrow> completion" where
  "handleUserEvent params s =
     (let eventData = eventData_of params
      in if \<not> truthy eventData \<or> \<not> truthy (js_read eventData ''type'') then Normal s
         else
           (let eventType = js_read eventData ''type'';
                s1 = logEvent eventType eventData s
            in if eventType = Some (JStr ''gifts_found'') then
                 and_then
                   (displayGifts (js_read eventData ''gifts'')
                      (s1\<lparr>document := (document s1)
                          \<lparr>giftShowcase_display := ''none'', giftGallery_display := ''grid''\<rparr>\<rparr>))
                   (\<lambda>s2. Normal (showSearchStatus False s2))
               else if eventType = Some (JStr ''gift_selected'') then
                 and_then (displaySelectedGift (js_read eventData ''gift'') s1)
                   (\<lambda>s2. Normal (showConfetti (playSound ''jingleBells'' s2)))
               else if eventType = Some (JStr ''nice_list_checked'') then
                 Normal (displayNiceListResult (js_read eventData ''name'')
                           (js_read eventData ''status'') s1)
               else if eventType = Some (JStr ''search_failed'') then
                 (let s2 = showSearchStatus False s1
                  in Normal (s2\<lparr>document := (document s2)
                               \<lparr>giftGallery_children := [RetryPrompt]\<rparr>\<rparr>))
               else if eventType = Some (JStr ''searching'') then
                 Normal (showSearchStatus True
                   (s1\<lparr>document := (document s1)
                       \<lparr>giftShowcase_display := ''none'',
                        giftGallery_display := ''grid'',
                        giftGallery_children := []\<rparr>\<rparr>))
               else Normal s1))"

section \<open>Hanging up\<close>

text \<open>
  \<^verbatim>\<open>hangup\<close> is asynchronous. With a session present it calls \<^verbatim>\<open>roomSession.hangup()\<close>
  and is suspended until that settles (\<open>Inr\<close>: whether it will reject, and the state at
  the \<^verbatim>\<open>await\<close>); without a session nothing is awaited and \<^verbatim>\<open>disconnect\<close> runs at once
  (\<open>Inl\<close>: the state when \<^verbatim>\<open>hangup\<close> has finished).
\<close>

definition hangup_call :: "app_state \<Rightarrow> app_state + bool \<times> app_state" where
  "hangup_call s =
     (case roomSession s of
        Some rs \<Rightarrow> Inr (hangupRejects rs, s\<lparr>calls := calls s @ [SessionHangup]\<rparr>)
      | None \<Rightarrow> Inl (disconnect s))"

text \<open>After the \<^verbatim>\<open>await\<close>: a rejection is caught, and \<^verbatim>\<open>disconnect\<close> runs in both cases.\<close>

definition hangup_resume :: "bool \<Rightarrow> app_state \<Rightarrow> app_state" where
  "hangup_resume rejected s = (if rejected then disconnect s else disconnect s)"

text \<open>\<^verbatim>\<open>hangup\<close> run with nothing else happening while it is suspended.\<close>

definition hangup :: "app_state \<Rightarrow> app_state" where
  "hangup s =
     (case hangup_call s of Inl f \<Rightarrow> f | Inr (rejected, s1) \<Rightarrow> hangup_resume rejected s1)"

definition endCall_call :: "app_state \<Rightarrow> app_state + bool \<times> app_state" where
  "endCall_call s = hangup_call s"

text \<open>The \<^verbatim>\<open>beforeunload\<close> listener.\<close>

definition beforeunload_call :: "app_state \<Rightarrow> app_state + bool \<times> app_state" where
  "beforeunload_call s =
     (case roomSession s of Some rs \<Rightarrow> hangup_call s | None \<Rightarrow> Inl s)"

section \<open>Starting a call\<close>

datatype 'a awaited = Resolved 'a | Rejected

text \<open>What the transport answers to the three awaited calls of \<^verbatim>\<open>startCall\<close>.\<close>

record transport_outcomes =
  clientResult :: "client_conn awaited"
  dialResult :: "session awaited"
  startResult :: "unit awaited"

text \<open>The listeners \<^verbatim>\<open>startCall\<close> registers on the session, in its order.\<close>

definition session_registrations :: "(string \<times> session_handler) list" where
  "session_registrations =
     [(''call.joined'', OnCallJoined),
      (''call.updated'', OnCallUpdated),
      (''call.ended'', OnCallEnded),
      (''destroy'', OnDestroy),
      (''room.left'', OnRoomLeft),
      (''stream.started'', OnStreamStarted),
      (''media.connected'', OnMediaConnected),
      (''user_event'', OnRoomUserEvent)]"

text \<open>The \<^verbatim>\<open>catch\<close> block.\<close>

definition startCall_catch :: "app_state \<Rightarrow> app_state" where
  "startCall_catch s =
     s\<lparr>document := (document s)\<lparr>startBtn_disabled := False, startBtn_content := TalkToSanta\<rparr>\<rparr>"

text \<open>
  From the call to the first \<^verbatim>\<open>await\<close>: \<open>None\<close> when the guard returns, otherwise the
  state in which client creation is awaited.
\<close>

definition startCall_enter :: "app_state \<Rightarrow> app_state option" where
  "startCall_enter s =
     (if startBtn_disabled (document s) then None
      else Some (s\<lparr>document := (document s)
                     \<lparr>startBtn_disabled := True, startBtn_content := Connecting\<rparr>,
                   calls := calls s @ [CreateClient]\<rparr>))"

text \<open>
  The next three steps resume after an \<^verbatim>\<open>await\<close>. \<open>Inl\<close> is the state in which
  \<^verbatim>\<open>startCall\<close> has finished through its \<^verbatim>\<open>catch\<close>, \<open>Inr\<close> the state at the next
  \<^verbatim>\<open>await\<close>. Reading a setting of a \<^verbatim>\<open>null\<close> \<^verbatim>\<open>audioSettings\<close> throws inside the
  \<^verbatim>\<open>try\<close>.
\<close>

definition startCall_client :: "client_conn awaited \<Rightarrow> app_state \<Rightarrow> app_state + app_state" where
  "startCall_client r s =
     (case r of
        Rejected \<Rightarrow> Inl (startCall_catch s)
      | Resolved c \<Rightarrow>
          (let s1 = s\<lparr>client := Some (c\<lparr>client_listeners :=
                          client_listeners c @ [(''user_event'', OnClientUserEvent)]\<rparr>)\<rparr>
           in case js_prop (Some (audioSettings s1)) ''echoCancellation'' of
                Inl e \<Rightarrow> Inl (startCall_catch s1)
              | Inr ec \<Rightarrow>
                  Inr (s1\<lparr>calls := calls s1 @
                         [Dial ec (js_read (Some (audioSettings s1)) ''noiseSuppression'')
                               (js_read (Some (audioSettings s1)) ''autoGainControl'')]\<rparr>)))"

definition startCall_dial :: "session awaited \<Rightarrow> app_state \<Rightarrow> app_state + app_state" where
  "startCall_dial r s =
     (case r of
        Rejected \<Rightarrow> Inl (startCall_catch s)
      | Resolved rs \<Rightarrow>
          Inr (s\<lparr>roomSession := Some (rs\<lparr>session_listeners :=
                     session_listeners rs @ session_registrations\<rparr>),
                 calls := calls s @ [SessionStart]\<rparr>))"

definition startCall_start :: "unit awaited \<Rightarrow> app_state \<Rightarrow> app_state" where
  "startCall_start r s =
     (case r of
        Rejected \<Rightarrow> startCall_catch s
      | Resolved u \<Rightarrow>
          s\<lparr>document := (document s)
             \<lparr>startBtn_display := ''none'',
              endBtn_display := ''block'',
              muteBtn_display := ''block''\<rparr>\<rparr>)"

text \<open>\<^verbatim>\<open>startCall\<close> run with nothing else happening while it is suspended.\<close>

definition startCall :: "transport_outcomes \<Rightarrow> app_state \<Rightarrow> app_state" where
  "startCall outs s =
     (case startCall_enter s of
        None \<Rightarrow> s
      | Some s1 \<Rightarrow>
          (case startCall_client (clientResult outs) s1 of
             Inl f \<Rightarrow> f
           | Inr s2 \<Rightarrow>
               (case startCall_dial (dialResult outs) s2 of
                  Inl f \<Rightarrow> f
                | Inr s3 \<Rightarrow> startCall_start (startResult outs) s3)))"

section \<open>Events of the transport\<close>

text \<open>The element with id \<^verbatim>\<open>video-placeholder\<close> is the first placeholder of the container.\<close>

fun hide_placeholder :: "container_child list \<Rightarrow> container_child list" where
  "hide_placeholder [] = []"
| "hide_placeholder (Placeholder d # cs) = Placeholder ''none'' # cs"
| "hide_placeholder (c # cs) = c # hide_placeholder cs"

text \<open>The bodies of the listeners that \<^verbatim>\<open>startCall\<close> registers.\<close>

fun run_session_handler :: "session_handler \<Rightarrow> jsval \<Rightarrow> app_state \<Rightarrow> completion" where
  "run_session_handler OnCallJoined params s =
     Normal (s\<lparr>document := (document s)
               \<lparr>videoContainer := map_option hide_placeholder (videoContainer (document s))\<rparr>\<rparr>)"
| "run_session_handler OnCallUpdated params s = Normal s"
| "run_session_handler OnCallEnded params s = Normal (disconnect (handleRoomEnded s))"
| "run_session_handler OnDestroy params s = Normal (disconnect s)"
| "run_session_handler OnRoomLeft params s = Normal (disconnect s)"
| "run_session_handler OnStreamStarted params s = Normal s"
| "run_session_handler OnMediaConnected params s = Normal s"
| "run_session_handler OnRoomUserEvent params s = handleUserEvent params s"

fun run_client_handler :: "client_handler \<Rightarrow> jsval \<Rightarrow> app_state \<Rightarrow> completion" where
  "run_client_handler OnClientUserEvent params s = handleUserEvent params s"

text \<open>
  An emitter calls the listeners registered for the event in registration order; a
  listener that throws ends the emission.
\<close>

definition handlers_for :: "string \<Rightarrow> (string \<times> 'h) list \<Rightarrow> 'h list" where
  "handlers_for ev tbl = map snd (filter (\<lambda>p. fst p = ev) tbl)"

fun run_all :: "('h \<Rightarrow> jsval \<Rightarrow> app_state \<Rightarrow> completion) \<Rightarrow> 'h list \<Rightarrow> jsval \<Rightarrow> app_state \<Rightarrow> completion" where
  "run_all run [] params s = Normal s"
| "run_all run (h # hs) params s = and_then (run h params s) (run_all run hs params)"

definition emit_session :: "session \<Rightarrow> string \<Rightarrow> jsval \<Rightarrow> app_state \<Rightarrow> completion" where
  "emit_session rs ev params s =
     run_all run_session_handler (handlers_for ev (session_listeners rs)) params s"

definition emit_client :: "client_conn \<Rightarrow> string \<Rightarrow> jsval \<Rightarrow> app_state \<Rightarrow> completion" where
  "emit_client c ev params s =
     run_all run_client_handler (handlers_for ev (client_listeners c)) params s"

section \<open>Termination triggers\<close>

text \<open>
  The five ways a call ends. The three events are emitted by the session object \<open>rs\<close>,
  which keeps its listeners after the page has dropped its handle. A hangup or an unload
  carries the triggers that arrive while its \<^verbatim>\<open>hangup\<close> is suspended.
\<close>

datatype trigger =
    RemoteEnded
  | Destroyed
  | RoomLeft
  | ExplicitHangup "trigger list"
  | PageUnload "trigger list"

fun deliver :: "session \<Rightarrow> trigger \<Rightarrow> app_state \<Rightarrow> app_state" where
  "deliver rs RemoteEnded s = state_of (emit_session rs ''call.ended'' None s)"
| "deliver rs Destroyed s = state_of (emit_session rs ''destroy'' None s)"
| "deliver rs RoomLeft s = state_of (emit_session rs ''room.left'' None s)"
| "deliver rs (ExplicitHangup during) s =
     (case endCall_call s of
        Inl f \<Rightarrow> f
      | Inr (rejected, s1) \<Rightarrow> hangup_resume rejected (fold (deliver rs) during s1))"
| "deliver rs (PageUnload during) s =
     (case beforeunload_call s of
        Inl f \<Rightarrow> f
      | Inr (rejected, s1) \<Rightarrow> hangup_resume rejected (fold (deliver rs) during s1))"

definition deliver_all :: "session \<Rightarrow> trigger list \<Rightarrow> app_state \<Rightarrow> app_state" where
  "deliver_all rs ts s = fold (deliver rs) ts s"

section \<open>Page load\<close>

text \<open>The listeners registered when the script is evaluated.\<close>

definition module_load :: "app_state \<Rightarrow> app_state" where
  "module_load s =
     s\<lparr>pageListeners := pageListeners s @
         [(''document'', ''DOMContentLoaded'', OnDOMContentLoaded),
          (''window'', ''beforeunload'', OnBeforeUnload)]\<rparr>"

definition initializeUI :: "app_state \<Rightarrow> app_state" where
  "initializeUI s =
     s\<lparr>pageListeners := pageListeners s @
         [(''startBtn'', ''click'', OnStartClick),
          (''endBtn'', ''click'', OnEndClick),
          (''muteBtn'', ''click'', OnMuteClick)]\<rparr>"

text \<open>
  \<^verbatim>\<open>initializeSettings\<close>: the stored text is parsed when it is present and not empty;
  the three checkboxes then show the settings, and the listeners of the settings panel
  are registered. The parse and the first read of a setting can throw.
\<close>

definition initializeSettings :: "app_state \<Rightarrow> completion" where
  "initializeSettings s =
     (let saved = localStorage s ''santaAudioSettings'';
          loaded =
            (case saved of
               None \<Rightarrow> Normal s
             | Some txt \<Rightarrow>
                 if txt = [] then Normal s
                 else
                   (case JSON_parse txt of
                      Inl e \<Rightarrow> Throw e s
                    | Inr v \<Rightarrow> Normal (s\<lparr>audioSettings := v\<rparr>)))
      in and_then loaded (\<lambda>s1.
           case js_prop (Some (audioSettings s1)) ''echoCancellation'' of
             Inl e \<Rightarrow> Throw e s1
           | Inr ec \<Rightarrow>
               Normal (s1\<lparr>document := (document s1)
                    \<lparr>echoCancellation_checked := truthy ec,
                     noiseSuppression_checked :=
                       truthy (js_read (Some (audioSettings s1)) ''noiseSuppression''),
                     autoGainControl_checked :=
                       truthy (js_read (Some (audioSettings s1)) ''autoGainControl'')\<rparr>,
                  pageListeners := pageListeners s1 @
                    [(''settingsToggle'', ''click'', OnSettingsToggle),
                     (''settingsClose'', ''click'', OnSettingsClose),
                     (''echoCancellation'', ''change'', OnEchoChange),
                     (''noiseSuppression'', ''change'', OnNoiseChange),
                     (''autoGainControl'', ''change'', OnGainChange)]\<rparr>)))"

text \<open>
  The \<^verbatim>\<open>DOMContentLoaded\<close> listener; the lights, the snow and the countdown that it
  starts afterwards are decoration and are left out.
\<close>

definition onDOMContentLoaded :: "app_state \<Rightarrow> completion" where
  "onDOMContentLoaded s =
     and_then (initializeSettings (initializeUI s)) (\<lambda>s1.
       Normal (s1\<lparr>pageListeners := pageListeners s1 @ [(''window'', ''resize'', OnResize)]\<rparr>))"

section \<open>A concrete page and a concrete call\<close>

text \<open>
  A page in the configuration that \<^verbatim>\<open>resetUI\<close> and \<^verbatim>\<open>disconnect\<close> restore, the module
  variables at their initial values, and a transport that answers every call: the tracks
  at even addresses are microphone tracks, those at odd addresses camera tracks.
\<close>

definition example_page :: page where
  "example_page =
     \<lparr>startBtn_display = ''block'',
      startBtn_disabled = False,
      startBtn_content = TalkToSanta,
      endBtn_display = ''none'',
      muteBtn_display = ''none'',
      muteBtn_content = MuteLabel,
      videoContainer = Some [Placeholder ''''],
      giftGallery_display = ''grid'',
      giftGallery_children = [WelcomeState ''''],
      giftShowcase_display = ''none'',
      showcaseImage_src = None,
      showcaseName_text = None,
      showcasePrice_text = None,
      searchStatus_display = ''none'',
      niceListChecker_display = ''none'',
      listResult = ResultMarkup,
      eventLog = None,
      jingleBells = True,
      echoCancellation_checked = False,
      noiseSuppression_checked = False,
      autoGainControl_checked = False\<rparr>"

definition example_tracks :: "nat \<Rightarrow> track" where
  "example_tracks t =
     \<lparr>kind = (if even t then Audio else Video), enabled = True, stopped = False\<rparr>"

definition example_state :: app_state where
  "example_state =
     \<lparr>client = None,
      roomSession = None,
      isMuted = False,
      audioSettings = default_audioSettings,
      tracks = example_tracks,
      localStorage = Map.empty,
      document = example_page,
      pageListeners = [],
      calls = []\<rparr>"

definition example_client :: client_conn where
  "example_client = \<lparr>disconnectThrows = False, client_listeners = []\<rparr>"

definition example_session :: session where
  "example_session =
     \<lparr>localStream = Some [0, 1],
      peer = Some \<lparr>peer_localStream = Some [0, 1]\<rparr>,
      hangupRejects = False,
      session_listeners = []\<rparr>"

definition example_outcomes :: transport_outcomes where
  "example_outcomes =
     \<lparr>clientResult = Resolved example_client,
      dialResult = Resolved example_session,
      startResult = Resolved ()\<rparr>"

text \<open>The session object once \<^verbatim>\<open>startCall\<close> has registered its listeners on it.\<close>

definition wired_session :: session where
  "wired_session = example_session\<lparr>session_listeners := session_registrations\<rparr>"

definition wired_client :: client_conn where
  "wired_client = example_client\<lparr>client_listeners := [(''user_event'', OnClientUserEvent)]\<rparr>"

definition in_call :: app_state where
  "in_call = startCall example_outcomes example_state"

text \<open>The same call with a session that exposes no local stream on either path.\<close>

definition no_stream_call :: app_state where
  "no_stream_call =
     in_call\<lparr>roomSession := Some (wired_session\<lparr>localStream := None, peer := None\<rparr>)\<rparr>"

text \<open>A call whose mute flag was left set by an earlier call.\<close>

definition stale_mute_call :: app_state where
  "stale_mute_call = in_call\<lparr>isMuted := True\<rparr>"

text \<open>The call muted, and the transport's answers to the next call, with fresh tracks.\<close>

definition muted_call :: app_state where
  "muted_call = toggleMute in_call"

definition redial :: transport_outcomes where
  "redial = example_outcomes\<lparr>dialResult := Resolved (example_session\<lparr>localStream := Some [2, 3]\<rparr>)\<rparr>"

text \<open>A transport whose dial is rejected.\<close>

definition dial_rejected :: transport_outcomes where
  "dial_rejected = example_outcomes\<lparr>dialResult := Rejected\<rparr>"

text \<open>The states in which a first \<^verbatim>\<open>startCall\<close> is suspended, at its three awaits.\<close>

definition awaiting_client :: app_state where
  "awaiting_client =
     (case startCall_enter example_state of None \<Rightarrow> example_state | Some s1 \<Rightarrow> s1)"

definition awaiting_dial :: app_state where
  "awaiting_dial =
     (case startCall_client (Resolved example_client) awaiting_client of
        Inl f \<Rightarrow> f
      | Inr s2 \<Rightarrow> s2)"

definition awaiting_start :: app_state where
  "awaiting_start =
     (case startCall_dial (Resolved example_session) awaiting_dial of
        Inl f \<Rightarrow> f
      | Inr s3 \<Rightarrow> s3)"

text \<open>The rest of that \<^verbatim>\<open>startCall\<close>, from a state in which the dial is awaited.\<close>

definition finish_start :: "app_state \<Rightarrow> app_state" where
  "finish_start s =
     (case startCall_dial (Resolved example_session) s of
        Inl f \<Rightarrow> f
      | Inr s3 \<Rightarrow> startCall_start (Resolved ()) s3)"

text \<open>Stored settings that are not JSON.\<close>

definition bad_storage :: app_state where
  "bad_storage = example_state\<lparr>localStorage := [''santaAudioSettings'' \<mapsto> ''{'']\<rparr>"

text \<open>Domain events as the agent sends them.\<close>

definition gift_selected_event :: json where
  "gift_selected_event =
     JObj [(''type'', JStr ''gift_selected''),
           (''gift'', JObj [(''title'', JStr ''Robot''), (''price'', JStr ''$19.99'')])]"

definition gifts_found_empty :: json where
  "gifts_found_empty = JObj [(''type'', JStr ''gifts_found''), (''gifts'', JArr [])]"

text \<open>A call whose session exposes its local stream on the peer alone.\<close>

definition peer_only_session :: session where
  "peer_only_session = wired_session\<lparr>localStream := None\<rparr>"

definition peer_only_call :: app_state where
  "peer_only_call = in_call\<lparr>roomSession := Some peer_only_session\<rparr>"

text \<open>What muting reads and writes: the flag, the label, the settings, the enabled flags.\<close>

definition mute_view :: "app_state \<Rightarrow> bool \<times> mute_content \<times> json \<times> (nat \<Rightarrow> bool)" where
  "mute_view s =
     (isMuted s, muteBtn_content (document s), audioSettings s, \<lambda>t. enabled (tracks s t))"

section \<open>Cleaned-up states\<close>

text \<open>
  A state is cleaned up for a local stream when \<^verbatim>\<open>disconnect\<close> has nothing left to do in
  it and every track of the stream is stopped.
\<close>

definition cleaned :: "stream option \<Rightarrow> app_state \<Rightarrow> bool" where
  "cleaned ls s \<longleftrightarrow>
     disconnect s = s \<and> (\<forall>st. ls = Some st \<longrightarrow> (\<forall>t\<in>set st. stopped (tracks s t)))"

section \<open>Cleanup: stopping tracks, releasing handles\<close>

lemma stopped_stop_track: "stopped (stop_track t ts u) = (u = t \<or> stopped (ts u))"
  by (simp add: stop_track_def)

lemma stopped_stop_tracks: "stopped (stop_tracks st ts u) = (u \<in> set st \<or> stopped (ts u))"
  unfolding stop_tracks_def
  by (induction st arbitrary: ts) (auto simp: stopped_stop_track)

lemma stopped_stop_videos: "stopped (ts u) \<Longrightarrow> stopped (stop_videos cs ts u)"
  by (induction cs ts rule: stop_videos.induct) (auto simp: stopped_stop_tracks)

lemma resetUI_fields [simp]:
  "roomSession (resetUI s) = roomSession s"
  "client (resetUI s) = client s"
  "tracks (resetUI s) = tracks s"
  "calls (resetUI s) = calls s"
  "isMuted (resetUI s) = isMuted s"
  "videoContainer (document (resetUI s)) = videoContainer (document s)"
  by (simp_all add: resetUI_def)

lemma resetUI_idem: "resetUI (resetUI s) = resetUI s"
  by (simp add: resetUI_def)

lemma clean_video_container_fields [simp]:
  "roomSession (clean_video_container s) = roomSession s"
  "client (clean_video_container s) = client s"
  "calls (clean_video_container s) = calls s"
  "isMuted (clean_video_container s) = isMuted s"
  by (simp_all add: clean_video_container_def split: option.splits)

lemma release_client_fields [simp]:
  "roomSession (release_client s) = roomSession s"
  "client (release_client s) = None"
  "tracks (release_client s) = tracks s"
  "document (release_client s) = document s"
  "isMuted (release_client s) = isMuted s"
  by (simp_all add: release_client_def split: option.splits)

lemma stop_local_stream_fields [simp]:
  "roomSession (stop_local_stream s) = roomSession s"
  "client (stop_local_stream s) = client s"
  "calls (stop_local_stream s) = calls s"
  "document (stop_local_stream s) = document s"
  "isMuted (stop_local_stream s) = isMuted s"
  by (simp_all add: stop_local_stream_def split: option.splits)

lemma roomSession_disconnect [simp]: "roomSession (disconnect s) = None"
  by (simp add: disconnect_def)

lemma client_disconnect_None [simp]: "client (disconnect s) = None"
  by (simp add: disconnect_def)

lemma isMuted_disconnect [simp]: "isMuted (disconnect s) = isMuted s"
  by (simp add: disconnect_def)

lemma container_disconnect:
  "videoContainer (document (disconnect s)) =
     (case videoContainer (document s) of Some cs \<Rightarrow> Some [Placeholder ''''] | None \<Rightarrow> None)"
  by (simp add: disconnect_def clean_video_container_def split: option.splits)

lemma resetUI_disconnect: "resetUI (disconnect s) = disconnect s"
  by (simp add: disconnect_def resetUI_idem)

lemma stop_local_fix: "roomSession s = None \<Longrightarrow> stop_local_stream s = s"
  by (simp add: stop_local_stream_def)

lemma release_client_fix: "client s = None \<Longrightarrow> release_client s = s"
  by (simp add: release_client_def)

lemma clean_container_fix:
  "videoContainer (document s) = None \<or> videoContainer (document s) = Some [Placeholder ''''] \<Longrightarrow>
   clean_video_container s = s"
  by (auto simp: clean_video_container_def)

lemma disconnect_fix:
  assumes "roomSession s = None" "client s = None" "resetUI s = s"
    "videoContainer (document s) = None \<or> videoContainer (document s) = Some [Placeholder '''']"
  shows "disconnect s = s"
proof -
  have "(stop_local_stream s)\<lparr>roomSession := None\<rparr> = s"
    using assms(1) by (simp add: stop_local_fix)
  then show ?thesis
    using assms by (simp add: disconnect_def release_client_fix clean_container_fix)
qed

lemma disconnect_idem: "disconnect (disconnect s) = disconnect s"
  by (rule disconnect_fix) (auto simp: resetUI_disconnect container_disconnect split: option.splits)

lemma stopped_disconnect_mono: "stopped (tracks s u) \<Longrightarrow> stopped (tracks (disconnect s) u)"
  by (simp add: disconnect_def clean_video_container_def stop_local_stream_def 
     stopped_stop_videos stopped_stop_tracks split: option.splits)

lemma stopped_disconnect_local:
  "roomSession s = Some rs \<Longrightarrow> localStream rs = Some st \<Longrightarrow> u \<in> set st \<Longrightarrow> stopped (tracks (disconnect s) u)"
  by (simp add: disconnect_def clean_video_container_def stop_local_stream_def 
     stopped_stop_videos stopped_stop_tracks split: option.splits)


lemma handlers_for_registrations:
  "handlers_for ''call.ended'' session_registrations = [OnCallEnded]"
  "handlers_for ''destroy'' session_registrations = [OnDestroy]"
  "handlers_for ''room.left'' session_registrations = [OnRoomLeft]"
  "handlers_for ''user_event'' session_registrations = [OnRoomUserEvent]"
  by (simp_all add: handlers_for_def session_registrations_def)

lemma deliver_events:
  assumes "session_listeners rs = session_registrations"
  shows "deliver rs RemoteEnded s = disconnect (resetUI s)"
    and "deliver rs Destroyed s = disconnect s"
    and "deliver rs RoomLeft s = disconnect s"
  using assms
  by (simp_all add: emit_session_def handlers_for_registrations and_then_def handleRoomEnded_def)

lemma cleaned_disconnect:
  assumes "roomSession s = Some rs \<or> cleaned (localStream rs) s"
  shows "cleaned (localStream rs) (disconnect s)"
  using assms
  by (auto simp: cleaned_def disconnect_idem stopped_disconnect_local dest: stopped_disconnect_mono)

lemma cleaned_roomSession: "cleaned ls s \<Longrightarrow> roomSession s = None"
  by (metis cleaned_def roomSession_disconnect)

lemma cleaned_resetUI: "cleaned ls s \<Longrightarrow> resetUI s = s"
  by (metis cleaned_def resetUI_disconnect)

lemma fold_deliver_inv:
  assumes "\<And>t s. t \<in> set ts \<Longrightarrow> roomSession s = Some rs \<or> cleaned (localStream rs) s
             \<Longrightarrow> cleaned (localStream rs) (deliver rs t s)"
    and "roomSession s = Some rs \<or> cleaned (localStream rs) s"
  shows "roomSession (fold (deliver rs) ts s) = Some rs \<or> cleaned (localStream rs) (fold (deliver rs) ts s)"
  using assms
proof (induction ts arbitrary: s)
  case Nil
  then show ?case by simp
next
  case (Cons t ts)
  have "cleaned (localStream rs) (deliver rs t s)"
    using Cons.prems by simp
  then show ?case
    using Cons.IH [of "deliver rs t s"] Cons.prems(1) by simp
qed

lemma hangup_call_cases:
  "hangup_call s =
     (case roomSession s of
        Some rs \<Rightarrow> Inr (hangupRejects rs, s\<lparr>calls := calls s @ [SessionHangup]\<rparr>)
      | None \<Rightarrow> Inl (disconnect s))"
  by (simp add: hangup_call_def)

lemma deliver_cleaned:
  assumes reg: "session_listeners rs = session_registrations"
  shows "roomSession s = Some rs \<or> cleaned (localStream rs) s
           \<Longrightarrow> cleaned (localStream rs) (deliver rs t s)"
proof (induction t arbitrary: s)
  case RemoteEnded
  have "roomSession (resetUI s) = Some rs \<or> cleaned (localStream rs) (resetUI s)"
    using RemoteEnded by (auto simp: cleaned_resetUI)
  then show ?case
    by (simp only: deliver_events [OF reg] cleaned_disconnect)
next
  case Destroyed
  then show ?case by (simp only: deliver_events [OF reg] cleaned_disconnect)
next
  case RoomLeft
  then show ?case by (simp only: deliver_events [OF reg] cleaned_disconnect)
next
  case (ExplicitHangup during)
  show ?case
  proof (cases "roomSession s")
    case None
    then have "cleaned (localStream rs) s" using ExplicitHangup.prems by simp
    then show ?thesis
      using None by (simp add: endCall_call_def hangup_call_def cleaned_disconnect)
  next
    case (Some r)
    let ?s1 = "s\<lparr>calls := calls s @ [SessionHangup]\<rparr>"
    have r: "r = rs" using Some ExplicitHangup.prems by (auto dest: cleaned_roomSession)
    have "roomSession ?s1 = Some rs \<or> cleaned (localStream rs) ?s1"
      using Some r by simp
    then have "roomSession (fold (deliver rs) during ?s1) = Some rs
               \<or> cleaned (localStream rs) (fold (deliver rs) during ?s1)"
      using ExplicitHangup.IH by (intro fold_deliver_inv) auto
    then show ?thesis
      using Some by (simp add: endCall_call_def hangup_call_def hangup_resume_def cleaned_disconnect)
  qed
next
  case (PageUnload during)
  show ?case
  proof (cases "roomSession s")
    case None
    then have "cleaned (localStream rs) s" using PageUnload.prems by simp
    then show ?thesis
      using None by (simp add: beforeunload_call_def)
  next
    case (Some r)
    let ?s1 = "s\<lparr>calls := calls s @ [SessionHangup]\<rparr>"
    have r: "r = rs" using Some PageUnload.prems by (auto dest: cleaned_roomSession)
    have "roomSession ?s1 = Some rs \<or> cleaned (localStream rs) ?s1"
      using Some r by simp
    then have "roomSession (fold (deliver rs) during ?s1) = Some rs
               \<or> cleaned (localStream rs) (fold (deliver rs) during ?s1)"
      using PageUnload.IH by (intro fold_deliver_inv) auto
    then show ?thesis
      using Some by (simp add: beforeunload_call_def hangup_call_def hangup_resume_def cleaned_disconnect)
  qed
qed

lemma fold_deliver_cleaned:
  assumes "session_listeners rs = session_registrations"
  shows "cleaned (localStream rs) s \<Longrightarrow> cleaned (localStream rs) (fold (deliver rs) ts s)"
  by (induction ts arbitrary: s) (simp_all add: deliver_cleaned [OF assms])

lemma deliver_all_cleaned:
  assumes "session_listeners rs = session_registrations" "roomSession s = Some rs" "ts \<noteq> []"
  shows "cleaned (localStream rs) (deliver_all rs ts s)"
proof -
  obtain t ts' where ts: "ts = t # ts'" using assms(3) by (cases ts) auto
  have "cleaned (localStream rs) (deliver rs t s)"
    using assms by (simp add: deliver_cleaned)
  then show ?thesis
    by (simp add: deliver_all_def ts fold_deliver_cleaned [OF assms(1)])
qed

lemma fold_invariant:
  assumes "\<And>x s. x \<in> set xs \<Longrightarrow> P s \<Longrightarrow> P (f x s)" and "P s"
  shows "P (fold f xs s)"
  using assms by (induction xs arbitrary: s) simp_all

lemma container_present_disconnect:
  "videoContainer (document s) \<noteq> None \<Longrightarrow> videoContainer (document (disconnect s)) \<noteq> None"
  by (auto simp: container_disconnect split: option.splits)

lemma container_present_deliver:
  assumes reg: "session_listeners rs = session_registrations"
  shows "videoContainer (document s) \<noteq> None \<Longrightarrow> videoContainer (document (deliver rs t s)) \<noteq> None"
proof (induction t arbitrary: s)
  case RemoteEnded
  then show ?case
    by (simp only: deliver_events [OF reg]) (simp add: container_present_disconnect)
next
  case Destroyed
  then show ?case unfolding deliver_events [OF reg] by (rule container_present_disconnect)
next
  case RoomLeft
  then show ?case unfolding deliver_events [OF reg] by (rule container_present_disconnect)
next
  case (ExplicitHangup during)
  let ?s1 = "s\<lparr>calls := calls s @ [SessionHangup]\<rparr>"
  have "videoContainer (document (fold (deliver rs) during ?s1)) \<noteq> None"
    using ExplicitHangup by (intro fold_invariant [where P = "\<lambda>s. videoContainer (document s) \<noteq> None"]) auto
  then show ?case
    using ExplicitHangup.prems
    by (auto simp: endCall_call_def hangup_call_def hangup_resume_def container_disconnect
             split: option.splits)
next
  case (PageUnload during)
  let ?s1 = "s\<lparr>calls := calls s @ [SessionHangup]\<rparr>"
  have "videoContainer (document (fold (deliver rs) during ?s1)) \<noteq> None"
    using PageUnload by (intro fold_invariant [where P = "\<lambda>s. videoContainer (document s) \<noteq> None"]) auto
  then show ?case
    using PageUnload.prems
    by (auto simp: beforeunload_call_def hangup_call_def hangup_resume_def container_disconnect
             split: option.splits)
qed

lemma container_present_deliver_all:
  assumes "session_listeners rs = session_registrations" "videoContainer (document s) \<noteq> None"
  shows "videoContainer (document (deliver_all rs ts s)) \<noteq> None"
  unfolding deliver_all_def
  using assms
  by (intro fold_invariant [where P = "\<lambda>s. videoContainer (document s) \<noteq> None"])
     (auto simp: container_present_deliver)

lemma resetUI_controls:
  "startBtn_display (document (resetUI s)) = ''block''"
  "startBtn_disabled (document (resetUI s)) = False"
  "startBtn_content (document (resetUI s)) = TalkToSanta"
  "endBtn_display (document (resetUI s)) = ''none''"
  "muteBtn_display (document (resetUI s)) = ''none''"
  "giftGallery_children (document (resetUI s)) = [WelcomeState '''']"
  by (simp_all add: resetUI_def)

lemma in_call_fields:
  "roomSession in_call = Some wired_session"
  "client in_call = Some wired_client"
  "videoContainer (document in_call) = Some [Placeholder []]"
  "isMuted in_call = False"
  "tracks in_call = example_tracks"
  "audioSettings in_call = default_audioSettings"
  unfolding in_call_def
  by (simp_all add: startCall_def startCall_enter_def startCall_client_def startCall_dial_def
      startCall_start_def example_outcomes_def example_state_def example_page_def
      example_session_def example_client_def wired_session_def wired_client_def
      default_audioSettings_def)

section \<open>Cleanup after termination triggers\<close>

lemma deliver_frame:
  fixes g :: "app_state \<Rightarrow> 'a"
  assumes reg: "session_listeners rs = session_registrations"
    and r: "\<And>s. g (resetUI s) = g s"
    and d: "\<And>s. g (disconnect s) = g s"
    and c: "\<And>s cs. g (s\<lparr>calls := cs\<rparr>) = g s"
  shows "g (deliver rs t s) = g s"
proof (induction t arbitrary: s)
  case RemoteEnded
  show ?case unfolding deliver_events [OF reg] by (simp add: r d)
next
  case Destroyed
  show ?case unfolding deliver_events [OF reg] by (simp add: d)
next
  case RoomLeft
  show ?case unfolding deliver_events [OF reg] by (simp add: d)
next
  case (ExplicitHangup during)
  have "g (fold (deliver rs) during s') = g s'" for s'
    using ExplicitHangup by (induction during arbitrary: s') simp_all
  then show ?case
    by (simp add: endCall_call_def hangup_call_def hangup_resume_def d c split: option.splits)
next
  case (PageUnload during)
  have "g (fold (deliver rs) during s') = g s'" for s'
    using PageUnload by (induction during arbitrary: s') simp_all
  then show ?case
    by (simp add: beforeunload_call_def hangup_call_def hangup_resume_def d c split: option.splits)
qed

lemma deliver_all_frame:
  fixes g :: "app_state \<Rightarrow> 'a"
  assumes "session_listeners rs = session_registrations"
    and "\<And>s. g (resetUI s) = g s"
    and "\<And>s. g (disconnect s) = g s"
    and "\<And>s cs. g (s\<lparr>calls := cs\<rparr>) = g s"
  shows "g (deliver_all rs ts s) = g s"
  unfolding deliver_all_def
  by (induction ts arbitrary: s) (simp_all add: deliver_frame [of rs g, OF assms])

lemma disconnect_unrestored:
  "giftGallery_display (document (disconnect s)) = giftGallery_display (document s)"
  "muteBtn_content (document (disconnect s)) = muteBtn_content (document s)"
  by (simp_all add: disconnect_def resetUI_def clean_video_container_def release_client_def
       stop_local_stream_def split: option.splits)

lemma deliver_all_unrestored:
  assumes "session_listeners rs = session_registrations"
  shows "giftGallery_display (document (deliver_all rs ts s)) = giftGallery_display (document s)"
    and "muteBtn_content (document (deliver_all rs ts s)) = muteBtn_content (document s)"
proof -
  show "giftGallery_display (document (deliver_all rs ts s)) = giftGallery_display (document s)"
    by (rule deliver_all_frame [of rs "\<lambda>s. giftGallery_display (document s)", OF assms])
       (simp_all add: disconnect_unrestored resetUI_def)
  show "muteBtn_content (document (deliver_all rs ts s)) = muteBtn_content (document s)"
    by (rule deliver_all_frame [of rs "\<lambda>s. muteBtn_content (document s)", OF assms])
       (simp_all add: disconnect_unrestored resetUI_def)
qed

lemma resetUI_hidden:
  "giftShowcase_display (document (resetUI s)) = ''none''"
  "searchStatus_display (document (resetUI s)) = ''none''"
  by (simp_all add: resetUI_def)

lemma startCall_start_handles:
  "roomSession (startCall_start r s) = roomSession s"
  "client (startCall_start r s) = client s"
  "tracks (startCall_start r s) = tracks s"
  by (cases r; simp add: startCall_start_def startCall_catch_def)+

lemma startCall_start_controls:
  "startBtn_display (document (startCall_start (Resolved u) s)) = ''none''"
  "endBtn_display (document (startCall_start (Resolved u) s)) = ''block''"
  "muteBtn_display (document (startCall_start (Resolved u) s)) = ''block''"
  by (simp_all add: startCall_start_def)

lemma resumed_start_on_cleaned:
  assumes fp: "disconnect e = e" and cont: "videoContainer (document e) = Some [Placeholder '''']"
  shows "startCall_start Rejected e = e"
    and "hangup (startCall_start (Resolved u) e) = e"
proof -
  have rst: "resetUI e = e" using resetUI_disconnect [of e] fp by simp
  have rs: "roomSession e = None" using roomSession_disconnect [of e] fp by simp
  have cl: "client e = None" using client_disconnect_None [of e] fp by simp
  have "startBtn_disabled (document e) = False" "startBtn_content (document e) = TalkToSanta"
    using resetUI_controls [of e] rst by simp_all
  then show "startCall_start Rejected e = e"
    by (simp add: startCall_start_def startCall_catch_def)
  let ?x = "startCall_start (Resolved u) e"
  have a: "(stop_local_stream ?x)\<lparr>roomSession := None\<rparr> = ?x"
    using rs by (simp add: stop_local_fix startCall_start_handles)
  have b: "release_client ?x = ?x"
    using cl by (simp add: release_client_fix startCall_start_handles)
  have c: "clean_video_container ?x = ?x"
    using cont by (intro clean_container_fix) (simp add: startCall_start_def)
  have "disconnect ?x = resetUI ?x"
    by (simp only: disconnect_def a b c)
  also have "resetUI ?x = resetUI e"
    by (simp add: startCall_start_def resetUI_def)
  finally have "disconnect ?x = e" using rst by simp
  then show "hangup ?x = e"
    using rs by (simp add: hangup_def hangup_call_def startCall_start_handles)
qed

lemma gift_selected_in_call:
  "roomSession (state_of (handleUserEvent (Some gift_selected_event) s)) = roomSession s"
  "videoContainer (document (state_of (handleUserEvent (Some gift_selected_event) s)))
     = videoContainer (document s)"
  "giftGallery_display (document (state_of (handleUserEvent (Some gift_selected_event) s)))
     = ''none''"
  by (simp_all add: handleUserEvent_def eventData_of_def gift_selected_event_def js_read_def
       displaySelectedGift_def and_then_def showConfetti_def playSound_def logEvent_def
       Let_def js_or_def split: option.splits)

text \<open>
  C1 (as amended). For every sequence of termination triggers (remote-ended, destroyed,
  room-left, explicit hangup, page-unload) that delivers at least one trigger, each any
  number of times and in any order, also while a hangup is suspended, to a call whose
  session carries the listeners of \<^verbatim>\<open>startCall\<close> on a page that has the video container,
  the state after the last trigger has: the session handle and the client handle absent;
  every track of the session's local stream stopped; the container holding the
  placeholder alone; the start control shown, enabled and labelled as initially, the end
  and mute controls hidden; the gallery's children replaced by the welcome state, the
  showcase and the search status hidden. The display style of the gallery and the label
  of the mute button are not restored: they are what they were before the triggers.
  \<^verbatim>\<open>disconnect\<close> changes nothing in that state, and is idempotent in every state. When a
  \<^verbatim>\<open>startCall\<close> that was awaiting the start of the call resumes in that state, a rejection
  changes nothing; a success keeps the handles absent and the tracks as they are but
  shows the in-call controls, and a hangup from there gives the cleaned-up state back.
\<close>

theorem cleanup_after_triggers:
  assumes "roomSession s = Some rs"
    and "session_listeners rs = session_registrations"
    and "videoContainer (document s) \<noteq> None"
    and "ts \<noteq> []"
  shows "roomSession (deliver_all rs ts s) = None
       \<and> client (deliver_all rs ts s) = None
       \<and> (\<forall>st. localStream rs = Some st \<longrightarrow> (\<forall>t\<in>set st. stopped (tracks (deliver_all rs ts s) t)))
       \<and> videoContainer (document (deliver_all rs ts s)) = Some [Placeholder '''']
       \<and> startBtn_display (document (deliver_all rs ts s)) = ''block''
       \<and> \<not> startBtn_disabled (document (deliver_all rs ts s))
       \<and> startBtn_content (document (deliver_all rs ts s)) = TalkToSanta
       \<and> endBtn_display (document (deliver_all rs ts s)) = ''none''
       \<and> muteBtn_display (document (deliver_all rs ts s)) = ''none''
       \<and> giftGallery_children (document (deliver_all rs ts s)) = [WelcomeState '''']
       \<and> giftShowcase_display (document (deliver_all rs ts s)) = ''none''
       \<and> searchStatus_display (document (deliver_all rs ts s)) = ''none''
       \<and> giftGallery_display (document (deliver_all rs ts s)) = giftGallery_display (document s)
       \<and> muteBtn_content (document (deliver_all rs ts s)) = muteBtn_content (document s)
       \<and> disconnect (deliver_all rs ts s) = deliver_all rs ts s
       \<and> disconnect (disconnect s) = disconnect s
       \<and> startCall_start Rejected (deliver_all rs ts s) = deliver_all rs ts s
       \<and> roomSession (startCall_start (Resolved u) (deliver_all rs ts s)) = None
       \<and> client (startCall_start (Resolved u) (deliver_all rs ts s)) = None
       \<and> tracks (startCall_start (Resolved u) (deliver_all rs ts s)) = tracks (deliver_all rs ts s)
       \<and> startBtn_display (document (startCall_start (Resolved u) (deliver_all rs ts s))) = ''none''
       \<and> endBtn_display (document (startCall_start (Resolved u) (deliver_all rs ts s))) = ''block''
       \<and> muteBtn_display (document (startCall_start (Resolved u) (deliver_all rs ts s))) = ''block''
       \<and> hangup (startCall_start (Resolved u) (deliver_all rs ts s)) = deliver_all rs ts s"
proof -
  let ?s' = "deliver_all rs ts s"
  have c: "cleaned (localStream rs) ?s'"
    using assms by (simp add: deliver_all_cleaned)
  then have fp: "disconnect ?s' = ?s'" by (simp add: cleaned_def)
  have rst: "resetUI ?s' = ?s'" using c by (rule cleaned_resetUI)
  have "videoContainer (document ?s') \<noteq> None"
    using assms by (simp add: container_present_deliver_all)
  then have cont: "videoContainer (document ?s') = Some [Placeholder '''']"
    using container_disconnect [of ?s'] fp by (auto split: option.splits)
  have h: "roomSession ?s' = None" "client ?s' = None"
    using c cleaned_roomSession client_disconnect_None [of ?s'] fp by auto
  have tr: "\<forall>st. localStream rs = Some st \<longrightarrow> (\<forall>t\<in>set st. stopped (tracks ?s' t))"
    using c by (simp add: cleaned_def)
  have ui: "startBtn_display (document ?s') = ''block''"
    "\<not> startBtn_disabled (document ?s')"
    "startBtn_content (document ?s') = TalkToSanta"
    "endBtn_display (document ?s') = ''none''"
    "muteBtn_display (document ?s') = ''none''"
    "giftGallery_children (document ?s') = [WelcomeState '''']"
    using resetUI_controls [of ?s'] rst by simp_all
  have hid: "giftShowcase_display (document ?s') = ''none''"
    "searchStatus_display (document ?s') = ''none''"
    using resetUI_hidden [of ?s'] rst by simp_all
  note un = deliver_all_unrestored [OF assms(2)]
  note rs1 = resumed_start_on_cleaned [OF fp cont]
  have rs2: "roomSession (startCall_start (Resolved u) ?s') = None"
    "client (startCall_start (Resolved u) ?s') = None"
    "tracks (startCall_start (Resolved u) ?s') = tracks ?s'"
    using h by (simp_all add: startCall_start_handles)
  show ?thesis
    using h tr cont ui hid un fp disconnect_idem [of s] rs1 rs2
    by (simp only: startCall_start_controls simp_thms)
qed

text \<open>
  C1, witness: a gift is selected during the concrete call, which hides the gallery; then
  a remote end, a hangup overtaken by a destroy, and an unload. The gallery stays hidden.
\<close>

theorem cleanup_after_triggers_witness:
  "roomSession (state_of (handleUserEvent (Some gift_selected_event) in_call)) = Some wired_session
   \<and> session_listeners wired_session = session_registrations
   \<and> videoContainer (document (state_of (handleUserEvent (Some gift_selected_event) in_call))) \<noteq> None
   \<and> [RemoteEnded, ExplicitHangup [Destroyed], PageUnload []] \<noteq> []
   \<and> roomSession (deliver_all wired_session [RemoteEnded, ExplicitHangup [Destroyed], PageUnload []]
         (state_of (handleUserEvent (Some gift_selected_event) in_call))) = None
   \<and> client (deliver_all wired_session [RemoteEnded, ExplicitHangup [Destroyed], PageUnload []]
         (state_of (handleUserEvent (Some gift_selected_event) in_call))) = None
   \<and> stopped (tracks (deliver_all wired_session [RemoteEnded, ExplicitHangup [Destroyed], PageUnload []]
         (state_of (handleUserEvent (Some gift_selected_event) in_call))) 0)
   \<and> stopped (tracks (deliver_all wired_session [RemoteEnded, ExplicitHangup [Destroyed], PageUnload []]
         (state_of (handleUserEvent (Some gift_selected_event) in_call))) 1)
   \<and> giftGallery_display (document
         (deliver_all wired_session [RemoteEnded, ExplicitHangup [Destroyed], PageUnload []]
           (state_of (handleUserEvent (Some gift_selected_event) in_call)))) = ''none''"
proof -
  let ?s = "state_of (handleUserEvent (Some gift_selected_event) in_call)"
  let ?ts = "[RemoteEnded, ExplicitHangup [Destroyed], PageUnload []]"
  have h1: "roomSession ?s = Some wired_session"
    by (simp add: gift_selected_in_call in_call_fields)
  have h2: "session_listeners wired_session = session_registrations"
    by (simp add: wired_session_def)
  have h3: "videoContainer (document ?s) \<noteq> None"
    by (simp add: gift_selected_in_call in_call_fields)
  have h4: "?ts \<noteq> []" by simp
  have ls: "localStream wired_session = Some [0, 1]"
    by (simp add: wired_session_def example_session_def)
  have g: "giftGallery_display (document ?s) = ''none''"
    by (simp add: gift_selected_in_call)
  note t = cleanup_after_triggers [OF h1 h2 h3 h4]
  have a: "roomSession (deliver_all wired_session ?ts ?s) = None"
    "client (deliver_all wired_session ?ts ?s) = None"
    using t by blast+
  have b: "\<forall>st. localStream wired_session = Some st \<longrightarrow>
             (\<forall>t\<in>set st. stopped (tracks (deliver_all wired_session ?ts ?s) t))"
    using t by blast
  have c: "giftGallery_display (document (deliver_all wired_session ?ts ?s))
             = giftGallery_display (document ?s)"
    using t by blast
  have b': "stopped (tracks (deliver_all wired_session ?ts ?s) 0)"
    "stopped (tracks (deliver_all wired_session ?ts ?s) 1)"
    using b ls by simp_all
  show ?thesis
    using h1 h2 h3 a b' c g by (simp del: deliver.simps)
qed

text \<open>
  C1, counterexample to the claim as stated: after a hangup of a call whose session
  exposes its local stream on the peer alone, the path that \<^verbatim>\<open>toggleMute\<close> falls back to,
  the microphone track is not stopped, since the cleanup reads the local stream of the
  session only; and when no trigger is delivered the session handle stays.
\<close>

theorem cleanup_counterexample:
  "\<not> stopped (tracks (deliver_all peer_only_session [ExplicitHangup []] peer_only_call) 0)
   \<and> roomSession (deliver_all wired_session [] in_call) \<noteq> None"
proof -
  have a: "roomSession (deliver_all wired_session [] in_call) \<noteq> None"
    by (simp add: deliver_all_def in_call_fields)
  have b: "\<not> stopped (tracks (deliver_all peer_only_session [ExplicitHangup []] peer_only_call) 0)"
    by (simp add: deliver_all_def endCall_call_def hangup_call_def hangup_resume_def
       peer_only_call_def peer_only_session_def disconnect_def stop_local_stream_def
       release_client_def clean_video_container_def resetUI_def wired_session_def
       example_session_def in_call_fields example_tracks_def client_disconnect_def
       wired_client_def example_client_def)
  show ?thesis using a b by simp
qed

section \<open>Muting and unmuting\<close>

lemma fold_set_enabled:
  "fold (set_enabled b) xs ts = (\<lambda>t. if t \<in> set xs then (ts t)\<lparr>enabled := b\<rparr> else ts t)"
  by (induction xs arbitrary: ts) (auto simp: set_enabled_def fun_eq_iff)

lemma set_audio_enabled_apply:
  "set_audio_enabled st b ts t =
     (if t \<in> set st \<and> kind (ts t) = Audio then (ts t)\<lparr>enabled := b\<rparr> else ts t)"
  by (simp add: set_audio_enabled_def fold_set_enabled getAudioTracks_def)

lemma toggleMute_no_session: "roomSession s = None \<Longrightarrow> toggleMute s = s"
  by (simp add: toggleMute_def)

lemma toggleMute_stream:
  assumes "roomSession s = Some rs"
    and "localStream rs = Some st \<or> (localStream rs = None \<and> (\<exists>p. peer rs = Some p \<and> peer_localStream p = Some st))"
  shows "toggleMute s =
     s\<lparr>isMuted := \<not> isMuted s,
       tracks := set_audio_enabled st (isMuted s) (tracks s),
       document := (document s)\<lparr>muteBtn_content := (if isMuted s then MuteLabel else UnmuteLabel)\<rparr>\<rparr>"
  using assms by (auto simp: toggleMute_def Let_def)

lemma toggleMute_no_stream:
  assumes "roomSession s = Some rs" and "localStream rs = None"
    and "peer rs = None \<or> (\<exists>p. peer rs = Some p \<and> peer_localStream p = None)"
  shows "toggleMute s =
     s\<lparr>isMuted := \<not> isMuted s,
       document := (document s)\<lparr>muteBtn_content := (if isMuted s then MuteLabel else UnmuteLabel)\<rparr>\<rparr>"
  using assms by (auto simp: toggleMute_def Let_def)

lemma no_stream_call_fields:
  "roomSession no_stream_call = Some (wired_session\<lparr>localStream := None, peer := None\<rparr>)"
  "isMuted no_stream_call = False"
  by (simp_all add: no_stream_call_def in_call_fields)

lemma stale_mute_call_fields:
  "roomSession stale_mute_call = Some wired_session"
  "isMuted stale_mute_call = True"
  "tracks stale_mute_call = example_tracks"
  by (simp_all add: stale_mute_call_def in_call_fields)

lemma wired_session_fields:
  "localStream wired_session = Some [0, 1]"
  "session_listeners wired_session = session_registrations"
  by (simp_all add: wired_session_def example_session_def)

text \<open>
  C5 (as amended). When \<^verbatim>\<open>toggleMute\<close> runs with a session present and neither the
  session's local stream nor the peer's local stream available, no track is touched and
  the handles stay, but the mute flag is flipped and the label of the mute button follows
  it: the state afterwards is the state before with exactly these two changes.
\<close>

theorem toggleMute_without_stream:
  assumes "roomSession s = Some rs" and "localStream rs = None"
    and "peer rs = None \<or> (\<exists>p. peer rs = Some p \<and> peer_localStream p = None)"
  shows "toggleMute s =
           s\<lparr>isMuted := \<not> isMuted s,
             document := (document s)
               \<lparr>muteBtn_content := (if isMuted s then MuteLabel else UnmuteLabel)\<rparr>\<rparr>
       \<and> isMuted (toggleMute s) = (\<not> isMuted s)
       \<and> tracks (toggleMute s) = tracks s
       \<and> roomSession (toggleMute s) = roomSession s
       \<and> client (toggleMute s) = client s"
  by (simp add: toggleMute_no_stream [OF assms])

text \<open>C5, witness: a call whose session exposes no stream on either path.\<close>

theorem toggleMute_without_stream_witness:
  "roomSession no_stream_call = Some (wired_session\<lparr>localStream := None, peer := None\<rparr>)
   \<and> localStream (wired_session\<lparr>localStream := None, peer := None\<rparr>) = None
   \<and> peer (wired_session\<lparr>localStream := None, peer := None\<rparr>) = None
   \<and> isMuted (toggleMute no_stream_call) = True
   \<and> tracks (toggleMute no_stream_call) = tracks no_stream_call"
proof -
  have h1: "roomSession no_stream_call = Some (wired_session\<lparr>localStream := None, peer := None\<rparr>)"
    by (simp add: no_stream_call_fields)
  have h2: "localStream (wired_session\<lparr>localStream := None, peer := None\<rparr>) = None" by simp
  have h3: "peer (wired_session\<lparr>localStream := None, peer := None\<rparr>) = None
            \<or> (\<exists>p. peer (wired_session\<lparr>localStream := None, peer := None\<rparr>) = Some p \<and> peer_localStream p = None)"
    by simp
  show ?thesis
    using h1 toggleMute_without_stream [OF h1 h2 h3] by (simp add: no_stream_call_fields)
qed

text \<open>
  C5, counterexample to the claim as stated: in that call \<^verbatim>\<open>toggleMute\<close> changes the
  mute flag.
\<close>

theorem toggleMute_flips_flag_counterexample:
  "isMuted (toggleMute no_stream_call) \<noteq> isMuted no_stream_call"
  by (simp add: toggleMute_def no_stream_call_fields wired_session_def Let_def)

text \<open>
  C6 (as amended). \<^verbatim>\<open>toggleMute\<close> changes nothing when no session handle is present.
  With a session whose local audio tracks are reached on the primary or on the alternate
  path, two calls return the mute flag to its value and leave every local audio track
  enabled exactly when the flag is clear; when the tracks agreed with the flag before
  (each enabled exactly when the flag was clear), every track is as it was.
\<close>

theorem toggleMute_twice:
  assumes "roomSession s = Some rs"
    and "localStream rs = Some st
         \<or> (localStream rs = None \<and> (\<exists>p. peer rs = Some p \<and> peer_localStream p = Some st))"
  shows "isMuted (toggleMute (toggleMute s)) = isMuted s
       \<and> (\<forall>t\<in>set (getAudioTracks st (tracks s)).
             enabled (tracks (toggleMute (toggleMute s)) t) = (\<not> isMuted s))
       \<and> ((\<forall>t\<in>set (getAudioTracks st (tracks s)). enabled (tracks s t) = (\<not> isMuted s))
             \<longrightarrow> tracks (toggleMute (toggleMute s)) = tracks s)
       \<and> (\<forall>s0. roomSession s0 = None \<longrightarrow> toggleMute s0 = s0)"
proof -
  let ?s1 = "toggleMute s"
  have s1: "?s1 = s\<lparr>isMuted := \<not> isMuted s,
       tracks := set_audio_enabled st (isMuted s) (tracks s),
       document := (document s)\<lparr>muteBtn_content := (if isMuted s then MuteLabel else UnmuteLabel)\<rparr>\<rparr>"
    by (rule toggleMute_stream [OF assms])
  have r1: "roomSession ?s1 = Some rs" by (simp add: s1 assms(1))
  have s2: "toggleMute ?s1 = ?s1\<lparr>isMuted := \<not> isMuted ?s1,
       tracks := set_audio_enabled st (isMuted ?s1) (tracks ?s1),
       document := (document ?s1)\<lparr>muteBtn_content := (if isMuted ?s1 then MuteLabel else UnmuteLabel)\<rparr>\<rparr>"
    by (rule toggleMute_stream [OF r1 assms(2)])
  have m: "isMuted (toggleMute ?s1) = isMuted s"
    by (subst s2) (simp add: s1)
  have tr: "tracks (toggleMute ?s1) =
      set_audio_enabled st (\<not> isMuted s) (set_audio_enabled st (isMuted s) (tracks s))"
    by (subst s2) (simp add: s1)
  have e: "\<forall>t\<in>set (getAudioTracks st (tracks s)).
             enabled (tracks (toggleMute ?s1) t) = (\<not> isMuted s)"
    by (simp add: tr set_audio_enabled_apply getAudioTracks_def)
  have c: "(\<forall>t\<in>set (getAudioTracks st (tracks s)). enabled (tracks s t) = (\<not> isMuted s))
             \<longrightarrow> tracks (toggleMute ?s1) = tracks s"
    by (auto simp: tr set_audio_enabled_apply getAudioTracks_def fun_eq_iff)
  show ?thesis
    using m e c by (simp add: toggleMute_no_session)
qed

text \<open>C6, witness: the concrete call, unmuted, its tracks enabled.\<close>

theorem toggleMute_twice_witness:
  "roomSession in_call = Some wired_session
   \<and> localStream wired_session = Some [0, 1]
   \<and> getAudioTracks [0, 1] (tracks in_call) = [0]
   \<and> enabled (tracks in_call 0) = (\<not> isMuted in_call)
   \<and> isMuted (toggleMute (toggleMute in_call)) = isMuted in_call
   \<and> tracks (toggleMute (toggleMute in_call)) = tracks in_call"
proof -
  have h1: "roomSession in_call = Some wired_session" by (simp add: in_call_fields)
  have h2: "localStream wired_session = Some [0, 1]
     \<or> (localStream wired_session = None
         \<and> (\<exists>p. peer wired_session = Some p \<and> peer_localStream p = Some [0, 1]))"
    by (simp add: wired_session_fields)
  have h3: "\<forall>t\<in>set (getAudioTracks [0, 1] (tracks in_call)).
              enabled (tracks in_call t) = (\<not> isMuted in_call)"
    by (simp add: in_call_fields getAudioTracks_def example_tracks_def)
  have h4: "getAudioTracks [0, 1] (tracks in_call) = [0]"
    by (simp add: in_call_fields getAudioTracks_def example_tracks_def)
  have h5: "enabled (tracks in_call 0) = (\<not> isMuted in_call)"
    by (simp add: in_call_fields example_tracks_def)
  show ?thesis
    using h1 h3 h4 h5 toggleMute_twice [OF h1 h2] by (simp add: wired_session_fields)
qed

text \<open>
  C6, counterexample to the claim as stated: with the mute flag left set by an earlier
  call and the microphone track enabled, two calls leave the track disabled.
\<close>

theorem toggleMute_twice_counterexample:
  "enabled (tracks (toggleMute (toggleMute stale_mute_call)) 0)
     \<noteq> enabled (tracks stale_mute_call 0)"
proof -
  have h1: "roomSession stale_mute_call = Some wired_session"
    by (simp add: stale_mute_call_fields)
  have h2: "localStream wired_session = Some [0, 1]
     \<or> (localStream wired_session = None
         \<and> (\<exists>p. peer wired_session = Some p \<and> peer_localStream p = Some [0, 1]))"
    by (simp add: wired_session_fields)
  have s1: "toggleMute stale_mute_call =
      stale_mute_call\<lparr>isMuted := False,
        tracks := set_audio_enabled [0, 1] True example_tracks,
        document := (document stale_mute_call)\<lparr>muteBtn_content := MuteLabel\<rparr>\<rparr>"
    using toggleMute_stream [OF h1 h2] by (simp add: stale_mute_call_fields)
  have r1: "roomSession (toggleMute stale_mute_call) = Some wired_session"
    by (simp add: s1 stale_mute_call_fields)
  have "tracks (toggleMute (toggleMute stale_mute_call)) =
      set_audio_enabled [0, 1] False (set_audio_enabled [0, 1] True example_tracks)"
    by (subst toggleMute_stream [OF r1 h2]) (simp add: s1)
  then show ?thesis
    by (simp add: set_audio_enabled_apply stale_mute_call_fields example_tracks_def)
qed

section \<open>The mute flag across calls\<close>

lemma startCall_success:
  assumes "\<not> startBtn_disabled (document s)" and "audioSettings s \<noteq> JNull"
    and "clientResult outs = Resolved c" and "dialResult outs = Resolved rs"
    and "startResult outs = Resolved u"
  shows "startCall outs s =
     s\<lparr>client := Some (c\<lparr>client_listeners := client_listeners c @ [(''user_event'', OnClientUserEvent)]\<rparr>),
       roomSession := Some (rs\<lparr>session_listeners := session_listeners rs @ session_registrations\<rparr>),
       document := (document s)
         \<lparr>startBtn_disabled := True, startBtn_content := Connecting,
          startBtn_display := ''none'', endBtn_display := ''block'', muteBtn_display := ''block''\<rparr>,
       calls := calls s @
         [CreateClient,
          Dial (js_get (audioSettings s) ''echoCancellation'')
               (js_get (audioSettings s) ''noiseSuppression'')
               (js_get (audioSettings s) ''autoGainControl''),
          SessionStart]\<rparr>"
  using assms
  by (cases "audioSettings s")
     (simp_all add: startCall_def startCall_enter_def startCall_client_def startCall_dial_def
        startCall_start_def js_read_def)

lemma enabled_stop_tracks: "enabled (stop_tracks st ts t) = enabled (ts t)"
  unfolding stop_tracks_def
  by (induction st arbitrary: ts) (simp_all add: stop_track_def)

lemma enabled_stop_videos: "enabled (stop_videos cs ts t) = enabled (ts t)"
  by (induction cs ts rule: stop_videos.induct) (simp_all add: enabled_stop_tracks)

lemma enabled_disconnect: "enabled (tracks (disconnect s) t) = enabled (tracks s t)"
  by (simp add: disconnect_def clean_video_container_def stop_local_stream_def
        enabled_stop_videos enabled_stop_tracks split: option.splits)

lemma disconnect_frame:
  "audioSettings (disconnect s) = audioSettings s"
  "muteBtn_content (document (disconnect s)) = muteBtn_content (document s)"
  "startBtn_disabled (document (disconnect s)) = False"
  by (simp_all add: disconnect_def resetUI_def clean_video_container_def release_client_def
       stop_local_stream_def split: option.splits)

lemma muted_call_fields:
  "roomSession muted_call = Some wired_session"
  "isMuted muted_call = True"
  "muteBtn_content (document muted_call) = UnmuteLabel"
  "audioSettings muted_call = default_audioSettings"
  "enabled (tracks muted_call 2)" "enabled (tracks muted_call 3)"
proof -
  have h1: "roomSession in_call = Some wired_session" by (simp add: in_call_fields)
  have h2: "localStream wired_session = Some [0, 1]
     \<or> (localStream wired_session = None
         \<and> (\<exists>p. peer wired_session = Some p \<and> peer_localStream p = Some [0, 1]))"
    by (simp add: wired_session_fields)
  note t = toggleMute_stream [OF h1 h2]
  show "roomSession muted_call = Some wired_session"
    "isMuted muted_call = True"
    "muteBtn_content (document muted_call) = UnmuteLabel"
    "audioSettings muted_call = default_audioSettings"
    "enabled (tracks muted_call 2)" "enabled (tracks muted_call 3)"
    unfolding muted_call_def t
    by (simp_all add: in_call_fields set_audio_enabled_apply example_tracks_def)
qed

lemma mute_view_resetUI: "mute_view (resetUI s) = mute_view s"
  by (simp add: mute_view_def resetUI_def)

lemma mute_view_disconnect: "mute_view (disconnect s) = mute_view s"
  by (simp add: mute_view_def disconnect_frame enabled_disconnect)

lemma mute_view_calls: "mute_view (s\<lparr>calls := cs\<rparr>) = mute_view s"
  by (simp add: mute_view_def)

lemma mute_view_fold:
  assumes "\<And>x s. x \<in> set xs \<Longrightarrow> mute_view (f x s) = mute_view s"
  shows "mute_view (fold f xs s) = mute_view s"
  using assms by (induction xs arbitrary: s) simp_all

lemma mute_view_deliver:
  assumes reg: "session_listeners rs = session_registrations"
  shows "mute_view (deliver rs t s) = mute_view s"
proof (induction t arbitrary: s)
  case RemoteEnded
  show ?case unfolding deliver_events [OF reg] by (simp add: mute_view_disconnect mute_view_resetUI)
next
  case Destroyed
  show ?case unfolding deliver_events [OF reg] by (simp add: mute_view_disconnect)
next
  case RoomLeft
  show ?case unfolding deliver_events [OF reg] by (simp add: mute_view_disconnect)
next
  case (ExplicitHangup during)
  have "mute_view (fold (deliver rs) during s') = mute_view s'" for s'
    using ExplicitHangup by (intro mute_view_fold) auto
  then show ?case
    by (simp add: endCall_call_def hangup_call_def hangup_resume_def mute_view_disconnect
          mute_view_calls split: option.splits)
next
  case (PageUnload during)
  have "mute_view (fold (deliver rs) during s') = mute_view s'" for s'
    using PageUnload by (intro mute_view_fold) auto
  then show ?case
    by (simp add: beforeunload_call_def hangup_call_def hangup_resume_def mute_view_disconnect
          mute_view_calls split: option.splits)
qed

lemma mute_view_deliver_all:
  assumes "session_listeners rs = session_registrations"
  shows "mute_view (deliver_all rs ts s) = mute_view s"
  unfolding deliver_all_def by (intro mute_view_fold) (simp add: mute_view_deliver [OF assms])

text \<open>
  C10. \<^verbatim>\<open>disconnect\<close>, \<^verbatim>\<open>resetUI\<close> and every termination trigger leave the mute flag as
  it is. So when a call ends while muted, by whatever triggers, the next successful
  \<^verbatim>\<open>startCall\<close> yields a session with the flag still set and the mute button still
  labelled for a muted microphone, although the tracks of the new session, enabled when
  the transport hands them over, are enabled.
\<close>

theorem mute_flag_survives_cleanup:
  assumes "roomSession s = Some rs0" and "session_listeners rs0 = session_registrations"
    and "ts \<noteq> []"
    and "isMuted s" and "muteBtn_content (document s) = UnmuteLabel"
    and "audioSettings s \<noteq> JNull"
    and "clientResult outs = Resolved c" and "dialResult outs = Resolved rs"
    and "startResult outs = Resolved u"
    and "localStream rs = Some st" and "\<forall>t\<in>set st. enabled (tracks s t)"
  shows "isMuted (disconnect s) = isMuted s
       \<and> isMuted (resetUI s) = isMuted s
       \<and> isMuted (deliver_all rs0 ts s) = isMuted s
       \<and> isMuted (startCall outs (deliver_all rs0 ts s))
       \<and> (\<exists>rs'. roomSession (startCall outs (deliver_all rs0 ts s)) = Some rs'
              \<and> localStream rs' = Some st)
       \<and> (\<forall>t\<in>set st. enabled (tracks (startCall outs (deliver_all rs0 ts s)) t))
       \<and> muteBtn_content (document (startCall outs (deliver_all rs0 ts s))) = UnmuteLabel
       \<and> muteBtn_display (document (startCall outs (deliver_all rs0 ts s))) = ''block''"
proof -
  let ?e = "deliver_all rs0 ts s"
  have v: "mute_view ?e = mute_view s"
    by (rule mute_view_deliver_all [OF assms(2)])
  then have f: "isMuted ?e = isMuted s" "muteBtn_content (document ?e) = muteBtn_content (document s)"
    "audioSettings ?e = audioSettings s" "\<And>t. enabled (tracks ?e t) = enabled (tracks s t)"
    by (simp_all add: mute_view_def fun_eq_iff)
  have c: "cleaned (localStream rs0) ?e"
    using assms(1,2,3) by (simp add: deliver_all_cleaned)
  have "resetUI ?e = ?e" using c by (rule cleaned_resetUI)
  then have d: "\<not> startBtn_disabled (document ?e)"
    using resetUI_controls(2) [of ?e] by simp
  have a: "audioSettings ?e \<noteq> JNull" using f(3) assms(6) by simp
  note sc = startCall_success [OF d a assms(7,8,9)]
  show ?thesis
    using assms(4,5,10,11) f by (simp add: sc)
qed

text \<open>C10, witness: the concrete call is muted, hung up, and dialled again.\<close>

theorem mute_flag_survives_cleanup_witness:
  "roomSession muted_call = Some wired_session
   \<and> session_listeners wired_session = session_registrations
   \<and> isMuted muted_call
   \<and> muteBtn_content (document muted_call) = UnmuteLabel
   \<and> enabled (tracks muted_call 2)
   \<and> enabled (tracks muted_call 3)
   \<and> isMuted (startCall redial (deliver_all wired_session [ExplicitHangup []] muted_call))
   \<and> enabled (tracks (startCall redial (deliver_all wired_session [ExplicitHangup []] muted_call)) 2)
   \<and> muteBtn_content
        (document (startCall redial (deliver_all wired_session [ExplicitHangup []] muted_call)))
       = UnmuteLabel"
proof -
  have h0: "roomSession muted_call = Some wired_session" by (simp add: muted_call_fields)
  have hr: "session_listeners wired_session = session_registrations"
    by (simp add: wired_session_fields)
  have ht: "[ExplicitHangup []] \<noteq> []" by simp
  have h1: "isMuted muted_call" by (simp add: muted_call_fields)
  have h2: "muteBtn_content (document muted_call) = UnmuteLabel" by (simp add: muted_call_fields)
  have h3: "audioSettings muted_call \<noteq> JNull"
    by (simp add: muted_call_fields default_audioSettings_def)
  have h4: "clientResult redial = Resolved example_client"
    by (simp add: redial_def example_outcomes_def)
  have h5: "dialResult redial = Resolved (example_session\<lparr>localStream := Some [2, 3]\<rparr>)"
    by (simp add: redial_def)
  have h6: "startResult redial = Resolved ()"
    by (simp add: redial_def example_outcomes_def)
  have h7: "localStream (example_session\<lparr>localStream := Some [2, 3]\<rparr>) = Some [2, 3]" by simp
  have h8: "\<forall>t\<in>set [2, 3]. enabled (tracks muted_call t)" by (simp add: muted_call_fields)
  show ?thesis
    using h0 hr h1 h2 h8 mute_flag_survives_cleanup [OF h0 hr ht h1 h2 h3 h4 h5 h6 h7 h8]
    by simp
qed

section \<open>Starting a call: the guard, failures, listeners\<close>

lemma startCall_disabled: "startBtn_disabled (document s) \<Longrightarrow> startCall outs s = s"
  by (simp add: startCall_def startCall_enter_def)

lemma startCall_enter_Some:
  "startCall_enter s0 = Some s1 \<Longrightarrow>
     \<not> startBtn_disabled (document s0) \<and>
     s1 = s0\<lparr>document := (document s0)\<lparr>startBtn_disabled := True, startBtn_content := Connecting\<rparr>,
            calls := calls s0 @ [CreateClient]\<rparr>"
  by (auto simp: startCall_enter_def split: if_splits)

lemma startCall_client_Inr:
  "startCall_client r s1 = Inr s2 \<Longrightarrow>
     \<exists>c. r = Resolved c \<and> audioSettings s1 \<noteq> JNull \<and>
       s2 = s1\<lparr>client := Some (c\<lparr>client_listeners :=
                     client_listeners c @ [(''user_event'', OnClientUserEvent)]\<rparr>),
              calls := calls s1 @
                [Dial (js_get (audioSettings s1) ''echoCancellation'')
                      (js_get (audioSettings s1) ''noiseSuppression'')
                      (js_get (audioSettings s1) ''autoGainControl'')]\<rparr>"
  by (cases r; cases "audioSettings s1")
     (auto simp: startCall_client_def js_read_def Let_def)

lemma startCall_dial_Inr:
  "startCall_dial r s2 = Inr s3 \<Longrightarrow>
     \<exists>rs. r = Resolved rs \<and>
       s3 = s2\<lparr>roomSession := Some (rs\<lparr>session_listeners :=
                     session_listeners rs @ session_registrations\<rparr>),
              calls := calls s2 @ [SessionStart]\<rparr>"
  by (cases r) (auto simp: startCall_dial_def)

lemma startCall_catch_fields:
  "document (startCall_catch s) = (document s)\<lparr>startBtn_disabled := False, startBtn_content := TalkToSanta\<rparr>"
  "isMuted (startCall_catch s) = isMuted s"
  "tracks (startCall_catch s) = tracks s"
  "client (startCall_catch s) = client s"
  "roomSession (startCall_catch s) = roomSession s"
  by (simp_all add: startCall_catch_def)

lemma awaiting_states:
  "startCall_enter example_state = Some awaiting_client"
  "startCall_client (Resolved example_client) awaiting_client = Inr awaiting_dial"
  "startCall_dial (Resolved example_session) awaiting_dial = Inr awaiting_start"
  by (simp_all add: awaiting_client_def awaiting_dial_def awaiting_start_def
       startCall_enter_def startCall_client_def startCall_dial_def
       example_state_def example_page_def default_audioSettings_def js_read_def)

lemma awaiting_dial_fields:
  "roomSession awaiting_dial = None"
  "client awaiting_dial = Some wired_client"
  by (simp_all add: awaiting_client_def awaiting_dial_def
       startCall_enter_def startCall_client_def wired_client_def example_client_def
       example_state_def example_page_def default_audioSettings_def js_read_def)

lemma deliver_clears_handles:
  assumes "session_listeners rs = session_registrations" "roomSession s = Some rs"
  shows "roomSession (deliver rs t s) = None \<and> client (deliver rs t s) = None"
proof -
  have c: "cleaned (localStream rs) (deliver rs t s)"
    using assms by (simp add: deliver_cleaned)
  then have "disconnect (deliver rs t s) = deliver rs t s" by (simp add: cleaned_def)
  then show ?thesis
    using roomSession_disconnect [of "deliver rs t s"] client_disconnect_None [of "deliver rs t s"]
    by simp
qed

text \<open>
  C2. While a first \<^verbatim>\<open>startCall\<close> is suspended at any of its three awaits, and after it
  has succeeded, the start control is disabled, and \<^verbatim>\<open>startCall\<close> called in a state with
  the control disabled returns the state unchanged whatever the transport would answer:
  no client is created and nothing is dialled. The first call alone has dialled, once,
  and the session handle is the session of that dial with the listeners registered on
  it.
\<close>

theorem second_start_returns_at_once:
  assumes "startCall_enter s0 = Some s1"
    and "startCall_client r1 s1 = Inr s2"
    and "startCall_dial r2 s2 = Inr s3"
  shows "startCall outs s1 = s1
       \<and> startCall outs s2 = s2
       \<and> startCall outs s3 = s3
       \<and> startCall outs (startCall_start (Resolved u) s3) = startCall_start (Resolved u) s3
       \<and> (\<exists>a b c. calls (startCall_start (Resolved u) s3)
                     = calls s0 @ [CreateClient, Dial a b c, SessionStart])
       \<and> (\<exists>rs. r2 = Resolved rs
              \<and> roomSession (startCall_start (Resolved u) s3)
                  = Some (rs\<lparr>session_listeners := session_listeners rs @ session_registrations\<rparr>))
       \<and> (\<forall>s. startBtn_disabled (document s) \<longrightarrow> startCall outs s = s)"
proof -
  note e = startCall_enter_Some [OF assms(1)]
  obtain c where c: "r1 = Resolved c" "audioSettings s1 \<noteq> JNull"
       "s2 = s1\<lparr>client := Some (c\<lparr>client_listeners :=
                     client_listeners c @ [(''user_event'', OnClientUserEvent)]\<rparr>),
              calls := calls s1 @
                [Dial (js_get (audioSettings s1) ''echoCancellation'')
                      (js_get (audioSettings s1) ''noiseSuppression'')
                      (js_get (audioSettings s1) ''autoGainControl'')]\<rparr>"
    using startCall_client_Inr [OF assms(2)] by blast
  obtain rs where rs: "r2 = Resolved rs"
       "s3 = s2\<lparr>roomSession := Some (rs\<lparr>session_listeners :=
                     session_listeners rs @ session_registrations\<rparr>),
              calls := calls s2 @ [SessionStart]\<rparr>"
    using startCall_dial_Inr [OF assms(3)] by blast
  have d1: "startBtn_disabled (document s1)" using e by simp
  have d2: "startBtn_disabled (document s2)" using d1 c(3) by simp
  have d3: "startBtn_disabled (document s3)" using d2 rs(2) by simp
  have d4: "startBtn_disabled (document (startCall_start (Resolved u) s3))"
    using d3 by (simp add: startCall_start_def)
  have k: "calls (startCall_start (Resolved u) s3) =
       calls s0 @ [CreateClient,
          Dial (js_get (audioSettings s1) ''echoCancellation'')
               (js_get (audioSettings s1) ''noiseSuppression'')
               (js_get (audioSettings s1) ''autoGainControl''), SessionStart]"
    using e c(3) rs(2) by (simp add: startCall_start_def)
  have r: "roomSession (startCall_start (Resolved u) s3)
         = Some (rs\<lparr>session_listeners := session_listeners rs @ session_registrations\<rparr>)"
    using rs(2) by (simp add: startCall_start_def)
  show ?thesis
    using d1 d2 d3 d4 k r rs(1) by (simp add: startCall_disabled)
qed

text \<open>C2, witness: a second call at each await of the first one on the concrete page.\<close>

theorem second_start_returns_at_once_witness:
  "startCall_enter example_state = Some awaiting_client
   \<and> startCall_client (Resolved example_client) awaiting_client = Inr awaiting_dial
   \<and> startCall_dial (Resolved example_session) awaiting_dial = Inr awaiting_start
   \<and> startCall example_outcomes awaiting_client = awaiting_client
   \<and> startCall example_outcomes awaiting_dial = awaiting_dial
   \<and> startCall example_outcomes awaiting_start = awaiting_start
   \<and> roomSession (startCall_start (Resolved ()) awaiting_start) = Some wired_session"
proof -
  note t = second_start_returns_at_once [OF awaiting_states, of example_outcomes "()"]
  have w: "example_session\<lparr>session_listeners := session_listeners example_session @ session_registrations\<rparr>
             = wired_session"
    by (simp add: wired_session_def example_session_def)
  show ?thesis
    using t awaiting_states by (simp add: w)
qed

text \<open>
  C3 (as amended). For every failure raised during \<^verbatim>\<open>startCall\<close> (client creation, the
  read of the audio settings, the dial, or the start of the call), the page afterwards is
  the page before with the start control enabled and labelled as initially, so it is
  the page before when the control had that label; the mute flag and the tracks are
  unchanged; and when client creation is what fails, the client and session handles are
  as before the call.
\<close>

theorem start_failure_reenables_control:
  assumes "\<not> startBtn_disabled (document s)"
    and "clientResult outs = Rejected \<or> audioSettings s = JNull
         \<or> dialResult outs = Rejected \<or> startResult outs = Rejected"
  shows "document (startCall outs s)
           = (document s)\<lparr>startBtn_disabled := False, startBtn_content := TalkToSanta\<rparr>
       \<and> \<not> startBtn_disabled (document (startCall outs s))
       \<and> (startBtn_content (document s) = TalkToSanta
            \<longrightarrow> document (startCall outs s) = document s)
       \<and> isMuted (startCall outs s) = isMuted s
       \<and> tracks (startCall outs s) = tracks s
       \<and> (clientResult outs = Rejected
            \<longrightarrow> client (startCall outs s) = client s
              \<and> roomSession (startCall outs s) = roomSession s)"
proof -
  have doc: "document (startCall outs s)
           = (document s)\<lparr>startBtn_disabled := False, startBtn_content := TalkToSanta\<rparr>"
    using assms
    by (cases "clientResult outs"; cases "dialResult outs"; cases "startResult outs";
        cases "audioSettings s")
       (simp_all add: startCall_def startCall_enter_def startCall_client_def startCall_dial_def
         startCall_start_def startCall_catch_def js_read_def)
  have fr: "isMuted (startCall outs s) = isMuted s \<and> tracks (startCall outs s) = tracks s"
    using assms
    by (cases "clientResult outs"; cases "dialResult outs"; cases "startResult outs";
        cases "audioSettings s")
       (simp_all add: startCall_def startCall_enter_def startCall_client_def startCall_dial_def
         startCall_start_def startCall_catch_def js_read_def)
  have h: "clientResult outs = Rejected
            \<longrightarrow> client (startCall outs s) = client s
              \<and> roomSession (startCall outs s) = roomSession s"
    using assms(1)
    by (simp add: startCall_def startCall_enter_def startCall_client_def startCall_catch_def)
  have same: "startBtn_content (document s) = TalkToSanta
            \<longrightarrow> document (startCall outs s) = document s"
    using assms(1) by (simp add: doc)
  show ?thesis using doc fr h same by simp
qed

text \<open>C3, witness: the dial is rejected on the concrete page.\<close>

theorem start_failure_reenables_control_witness:
  "\<not> startBtn_disabled (document example_state)
   \<and> dialResult dial_rejected = Rejected
   \<and> startBtn_content (document example_state) = TalkToSanta
   \<and> document (startCall dial_rejected example_state) = document example_state
   \<and> \<not> startBtn_disabled (document (startCall dial_rejected example_state))"
proof -
  have h1: "\<not> startBtn_disabled (document example_state)"
    by (simp add: example_state_def example_page_def)
  have h2: "clientResult dial_rejected = Rejected \<or> audioSettings example_state = JNull
         \<or> dialResult dial_rejected = Rejected \<or> startResult dial_rejected = Rejected"
    by (simp add: dial_rejected_def)
  have h3: "startBtn_content (document example_state) = TalkToSanta"
    by (simp add: example_state_def example_page_def)
  show ?thesis
    using h1 h3 start_failure_reenables_control [OF h1 h2] by (simp add: dial_rejected_def)
qed

text \<open>
  C3, counterexample to the claim as stated: after a rejected dial the client handle is
  not absent.
\<close>

theorem start_failure_keeps_client_counterexample:
  "client (startCall dial_rejected example_state) \<noteq> None"
  by (simp add: startCall_def startCall_enter_def startCall_client_def startCall_dial_def
       startCall_catch_def dial_rejected_def example_outcomes_def
       example_state_def example_page_def default_audioSettings_def js_read_def)

lemma startCall_start_end_control:
  "endBtn_display (document (startCall_start (Resolved u) s)) = ''block''"
  by (simp add: startCall_start_def)

lemma startCall_start_pageListeners:
  "pageListeners (startCall_start r s) = pageListeners s"
  by (cases r) (simp_all add: startCall_start_def startCall_catch_def)

text \<open>
  C4 (as amended). \<^verbatim>\<open>startCall\<close> does not set the session handle while it awaits the
  client and the dial: at both awaits the handle is what it was before the call. Once the
  dial has resolved with a fresh session, \<^verbatim>\<open>startCall\<close> registers the listeners for
  \<^verbatim>\<open>call.ended\<close>, \<^verbatim>\<open>destroy\<close> and \<^verbatim>\<open>room.left\<close> on it before it awaits the start of the
  call, and every termination trigger delivered at that await leaves the session and
  client handles absent; the resumed \<^verbatim>\<open>startCall\<close> keeps them absent and, when the start
  resolved, shows the end control all the same. \<^verbatim>\<open>startCall\<close> registers no listener of
  the page, up to its last await or after it: the hangup listener is registered by \<^verbatim>\<open>initializeUI\<close> and the unload listener
  when the script is loaded.
\<close>

theorem listeners_before_start_is_awaited:
  assumes "startCall_enter s0 = Some s1"
    and "startCall_client r1 s1 = Inr s2"
    and "startCall_dial (Resolved rs) s2 = Inr s3"
    and "session_listeners rs = []"
  shows "roomSession s1 = roomSession s0
       \<and> roomSession s2 = roomSession s0
       \<and> roomSession s3 = Some (rs\<lparr>session_listeners := session_registrations\<rparr>)
       \<and> handlers_for ''call.ended'' session_registrations = [OnCallEnded]
       \<and> handlers_for ''destroy'' session_registrations = [OnDestroy]
       \<and> handlers_for ''room.left'' session_registrations = [OnRoomLeft]
       \<and> (\<forall>t. roomSession (deliver (rs\<lparr>session_listeners := session_registrations\<rparr>) t s3) = None
              \<and> client (deliver (rs\<lparr>session_listeners := session_registrations\<rparr>) t s3) = None)
       \<and> (\<forall>t r. roomSession (startCall_start r
                      (deliver (rs\<lparr>session_listeners := session_registrations\<rparr>) t s3)) = None
              \<and> client (startCall_start r
                      (deliver (rs\<lparr>session_listeners := session_registrations\<rparr>) t s3)) = None)
       \<and> (\<forall>t. endBtn_display (document (startCall_start (Resolved u)
                      (deliver (rs\<lparr>session_listeners := session_registrations\<rparr>) t s3)))
                = ''block'')
       \<and> pageListeners s3 = pageListeners s0
       \<and> pageListeners (startCall_start r3 s3) = pageListeners s0
       \<and> (''endBtn'', ''click'', OnEndClick) \<in> set (pageListeners (initializeUI s))
       \<and> (''window'', ''beforeunload'', OnBeforeUnload) \<in> set (pageListeners (module_load s))"
proof -
  note e = startCall_enter_Some [OF assms(1)]
  obtain c where c: "r1 = Resolved c"
       "s2 = s1\<lparr>client := Some (c\<lparr>client_listeners :=
                     client_listeners c @ [(''user_event'', OnClientUserEvent)]\<rparr>),
              calls := calls s1 @
                [Dial (js_get (audioSettings s1) ''echoCancellation'')
                      (js_get (audioSettings s1) ''noiseSuppression'')
                      (js_get (audioSettings s1) ''autoGainControl'')]\<rparr>"
    using startCall_client_Inr [OF assms(2)] by blast
  have s3: "s3 = s2\<lparr>roomSession := Some (rs\<lparr>session_listeners :=
                     session_listeners rs @ session_registrations\<rparr>),
              calls := calls s2 @ [SessionStart]\<rparr>"
    using startCall_dial_Inr [OF assms(3)] by auto
  have r3: "roomSession s3 = Some (rs\<lparr>session_listeners := session_registrations\<rparr>)"
    using s3 assms(4) by simp
  have reg: "session_listeners (rs\<lparr>session_listeners := session_registrations\<rparr>)
               = session_registrations" by simp
  have d: "\<forall>t. roomSession (deliver (rs\<lparr>session_listeners := session_registrations\<rparr>) t s3) = None
              \<and> client (deliver (rs\<lparr>session_listeners := session_registrations\<rparr>) t s3) = None"
    using deliver_clears_handles [OF reg r3] by blast
  have p: "pageListeners s3 = pageListeners s0" "roomSession s1 = roomSession s0"
    "roomSession s2 = roomSession s0"
    using e c(2) s3 by simp_all
  show ?thesis
    using r3 d p
    by (simp add: handlers_for_registrations initializeUI_def module_load_def
          startCall_start_handles startCall_start_end_control startCall_start_pageListeners)
qed

text \<open>C4, witness: the concrete call at the await of its start.\<close>

theorem listeners_before_start_is_awaited_witness:
  "startCall_enter example_state = Some awaiting_client
   \<and> startCall_client (Resolved example_client) awaiting_client = Inr awaiting_dial
   \<and> startCall_dial (Resolved example_session) awaiting_dial = Inr awaiting_start
   \<and> session_listeners example_session = []
   \<and> roomSession awaiting_start = Some wired_session
   \<and> roomSession (deliver wired_session Destroyed awaiting_start) = None
   \<and> client (deliver wired_session (PageUnload []) awaiting_start) = None
   \<and> roomSession (startCall_start (Resolved ()) (deliver wired_session Destroyed awaiting_start))
       = None
   \<and> endBtn_display
        (document (startCall_start (Resolved ()) (deliver wired_session Destroyed awaiting_start)))
       = ''block''"
proof -
  have h4: "session_listeners example_session = []" by (simp add: example_session_def)
  note t = listeners_before_start_is_awaited [OF awaiting_states h4, where s = example_state
             and u = "()"]
  have w: "example_session\<lparr>session_listeners := session_registrations\<rparr> = wired_session"
    by (simp add: wired_session_def)
  from t have a: "roomSession awaiting_start = Some wired_session" by (simp add: w)
  from t have b: "\<forall>t. roomSession (deliver wired_session t awaiting_start) = None
                    \<and> client (deliver wired_session t awaiting_start) = None"
    unfolding w by blast
  from t have c: "\<forall>t r. roomSession (startCall_start r (deliver wired_session t awaiting_start)) = None
                    \<and> client (startCall_start r (deliver wired_session t awaiting_start)) = None"
    unfolding w by blast
  from t have d: "\<forall>t. endBtn_display (document (startCall_start (Resolved ())
                      (deliver wired_session t awaiting_start))) = ''block''"
    unfolding w by blast
  show ?thesis
    using a b c d h4 awaiting_states by blast
qed

text \<open>
  C4, counterexample to the claim as stated: an unload that arrives while the dial is
  awaited changes nothing, and the call is then established.
\<close>

theorem unload_during_dial_counterexample:
  "deliver wired_session (PageUnload []) awaiting_dial = awaiting_dial
   \<and> roomSession (finish_start (deliver wired_session (PageUnload []) awaiting_dial))
       = Some wired_session"
proof -
  have u: "deliver wired_session (PageUnload []) awaiting_dial = awaiting_dial"
    by (simp add: beforeunload_call_def awaiting_dial_fields)
  have f: "roomSession (finish_start awaiting_dial) = Some wired_session"
    by (simp add: finish_start_def awaiting_states startCall_start_def)
       (simp add: awaiting_start_def awaiting_dial_fields wired_session_def startCall_dial_def
          example_session_def)
  show ?thesis
    unfolding u using f by simp
qed

section \<open>Domain events\<close>

lemma js_read_Some_truthy: "js_read x k = Some v \<Longrightarrow> truthy x"
  by (cases x rule: truthy.cases) (simp_all add: js_read_def)

lemma logEvent_frame:
  "giftGallery_children (document (logEvent ty d s)) = giftGallery_children (document s)"
  "calls (logEvent ty d s) = calls s"
  "jingleBells (document (logEvent ty d s)) = jingleBells (document s)"
  by (simp_all add: logEvent_def split: option.splits)

lemma handleUserEvent_gifts_found_empty:
  assumes ty: "js_read (eventData_of params) ''type'' = Some (JStr ''gifts_found'')"
    and g: "js_read (eventData_of params) ''gifts'' = None
          \<or> js_read (eventData_of params) ''gifts'' = Some JNull
          \<or> js_read (eventData_of params) ''gifts'' = Some (JArr [])"
  shows "handleUserEvent params s =
     Normal (showSearchStatus False
       ((logEvent (Some (JStr ''gifts_found'')) (eventData_of params) s)
         \<lparr>document := (document (logEvent (Some (JStr ''gifts_found'')) (eventData_of params) s))
            \<lparr>giftShowcase_display := ''none'', giftGallery_display := ''grid''\<rparr>\<rparr>))"
proof -
  have t: "truthy (eventData_of params)" using ty by (rule js_read_Some_truthy)
  have e: "\<not> truthy (js_read (eventData_of params) ''gifts'')
           \<or> length_is_zero (js_read (eventData_of params) ''gifts'')"
    using g by auto
  show ?thesis
    using t e by (simp add: handleUserEvent_def ty Let_def displayGifts_def and_then_def)
qed

lemma gifts_found_empty_reads:
  "eventData_of (Some gifts_found_empty) = Some gifts_found_empty"
  "js_read (Some gifts_found_empty) ''type'' = Some (JStr ''gifts_found'')"
  "js_read (Some gifts_found_empty) ''gifts'' = Some (JArr [])"
  by (simp_all add: eventData_of_def gifts_found_empty_def js_read_def)

lemma handleUserEvent_gift_selected:
  assumes ty: "js_read (eventData_of params) ''type'' = Some (JStr ''gift_selected'')"
    and g: "js_prop (js_read (eventData_of params) ''gift'') ''image'' = Inr img"
    and j: "jingleBells (document s)"
  shows "\<exists>s'. handleUserEvent params s = Normal s'
           \<and> calls s' = calls s @ [PlaySound ''jingleBells'', ShowConfetti]
           \<and> jingleBells (document s')"
proof -
  have t: "truthy (eventData_of params)" using ty by (rule js_read_Some_truthy)
  show ?thesis
    using t g j
    by (simp add: handleUserEvent_def ty Let_def displaySelectedGift_def and_then_def
          showConfetti_def playSound_def logEvent_frame)
qed

lemma emit_user_event:
  assumes "handlers_for ''user_event'' (client_listeners c) = [OnClientUserEvent]"
    and "handlers_for ''user_event'' (session_listeners rs) = [OnRoomUserEvent]"
  shows "and_then (emit_client c ''user_event'' p s) (emit_session rs ''user_event'' p)
       = and_then (handleUserEvent p s) (handleUserEvent p)"
proof -
  have a: "emit_client c ''user_event'' p s = handleUserEvent p s" for s
    using assms(1) by (cases "handleUserEvent p s") (simp_all add: emit_client_def and_then_def)
  have b: "emit_session rs ''user_event'' p = handleUserEvent p"
  proof
    fix s show "emit_session rs ''user_event'' p s = handleUserEvent p s"
      using assms(2) by (cases "handleUserEvent p s") (simp_all add: emit_session_def and_then_def)
  qed
  show ?thesis by (simp add: a b)
qed

lemma gift_selected_reads:
  "js_read (eventData_of (Some gift_selected_event)) ''type'' = Some (JStr ''gift_selected'')"
  "js_prop (js_read (eventData_of (Some gift_selected_event)) ''gift'') ''image'' = Inr None"
  by (simp_all add: eventData_of_def gift_selected_event_def js_read_def)

lemma awaiting_start_fields:
  "jingleBells (document awaiting_start)"
  "client_listeners example_client = []"
  "session_listeners example_session = []"
  by (simp_all add: awaiting_client_def awaiting_dial_def awaiting_start_def
       startCall_enter_def startCall_client_def startCall_dial_def example_client_def
       example_session_def example_state_def example_page_def default_audioSettings_def
       js_read_def)

text \<open>
  C7. A \<^verbatim>\<open>gifts_found\<close> event whose gift list is absent (\<^verbatim>\<open>undefined\<close> or \<^verbatim>\<open>null\<close>) or
  empty is dispatched without an exception, \<^verbatim>\<open>displayGifts\<close> returns the state it was
  given, and the children of the gallery are the same afterwards: no card is appended and
  nothing that was there is removed or altered. The state afterwards is given in full:
  besides the entry in the event log, the dispatcher has hidden the showcase and the
  search status and set the display style of the gallery.
\<close>

theorem empty_gifts_found_keeps_gallery:
  assumes "js_read (eventData_of params) ''type'' = Some (JStr ''gifts_found'')"
    and "js_read (eventData_of params) ''gifts'' = None
          \<or> js_read (eventData_of params) ''gifts'' = Some JNull
          \<or> js_read (eventData_of params) ''gifts'' = Some (JArr [])"
  shows "handleUserEvent params s =
           Normal (showSearchStatus False
             ((logEvent (Some (JStr ''gifts_found'')) (eventData_of params) s)
               \<lparr>document :=
                  (document (logEvent (Some (JStr ''gifts_found'')) (eventData_of params) s))
                  \<lparr>giftShowcase_display := ''none'', giftGallery_display := ''grid''\<rparr>\<rparr>))
       \<and> giftGallery_children (document (state_of (handleUserEvent params s)))
           = giftGallery_children (document s)
       \<and> displayGifts (js_read (eventData_of params) ''gifts'') s = Normal s"
proof -
  have "\<not> truthy (js_read (eventData_of params) ''gifts'')
           \<or> length_is_zero (js_read (eventData_of params) ''gifts'')"
    using assms(2) by auto
  then have "displayGifts (js_read (eventData_of params) ''gifts'') s = Normal s"
    by (simp add: displayGifts_def)
  then show ?thesis
    by (simp add: handleUserEvent_gifts_found_empty [OF assms] showSearchStatus_def logEvent_frame)
qed

text \<open>C7, witness: an event with an empty gift list during the concrete call.\<close>

theorem empty_gifts_found_keeps_gallery_witness:
  "js_read (eventData_of (Some gifts_found_empty)) ''type'' = Some (JStr ''gifts_found'')
   \<and> js_read (eventData_of (Some gifts_found_empty)) ''gifts'' = Some (JArr [])
   \<and> giftGallery_children (document (state_of (handleUserEvent (Some gifts_found_empty) in_call)))
       = giftGallery_children (document in_call)"
proof -
  have h1: "js_read (eventData_of (Some gifts_found_empty)) ''type'' = Some (JStr ''gifts_found'')"
    by (simp add: gifts_found_empty_reads)
  have h2: "js_read (eventData_of (Some gifts_found_empty)) ''gifts'' = None
          \<or> js_read (eventData_of (Some gifts_found_empty)) ''gifts'' = Some JNull
          \<or> js_read (eventData_of (Some gifts_found_empty)) ''gifts'' = Some (JArr [])"
    by (simp add: gifts_found_empty_reads)
  have k: "giftGallery_children (document (state_of (handleUserEvent (Some gifts_found_empty) in_call)))
       = giftGallery_children (document in_call)"
    using empty_gifts_found_keeps_gallery [OF h1 h2, of in_call] by blast
  show ?thesis
    using h1 k by (simp add: gifts_found_empty_reads)
qed

text \<open>
  C9. \<^verbatim>\<open>startCall\<close> registers the handler of domain events on the client and on the
  session, each under \<^verbatim>\<open>user_event\<close>. An event emitted on both is handled twice: the
  two emissions together are \<^verbatim>\<open>handleUserEvent\<close> applied two times, nothing being
  filtered, and for a \<^verbatim>\<open>gift_selected\<close> event with a gift, on a page with the sound, the
  sound is played and the confetti shown two times.
\<close>

theorem user_event_rendered_twice:
  assumes "startCall_enter s0 = Some s1"
    and "startCall_client (Resolved c) s1 = Inr s2"
    and "startCall_dial (Resolved rs) s2 = Inr s3"
    and "client_listeners c = []" and "session_listeners rs = []"
  shows "client s3 = Some (c\<lparr>client_listeners := [(''user_event'', OnClientUserEvent)]\<rparr>)
       \<and> roomSession s3 = Some (rs\<lparr>session_listeners := session_registrations\<rparr>)
       \<and> handlers_for ''user_event'' [(''user_event'', OnClientUserEvent)] = [OnClientUserEvent]
       \<and> handlers_for ''user_event'' session_registrations = [OnRoomUserEvent]
       \<and> (\<forall>p s. and_then
                   (emit_client (c\<lparr>client_listeners := [(''user_event'', OnClientUserEvent)]\<rparr>)
                      ''user_event'' p s)
                   (emit_session (rs\<lparr>session_listeners := session_registrations\<rparr>)
                      ''user_event'' p)
                = and_then (handleUserEvent p s) (handleUserEvent p))
       \<and> (\<forall>p s img.
             js_read (eventData_of p) ''type'' = Some (JStr ''gift_selected'')
             \<and> js_prop (js_read (eventData_of p) ''gift'') ''image'' = Inr img
             \<and> jingleBells (document s)
             \<longrightarrow> calls (state_of (and_then
                   (emit_client (c\<lparr>client_listeners := [(''user_event'', OnClientUserEvent)]\<rparr>)
                      ''user_event'' p s)
                   (emit_session (rs\<lparr>session_listeners := session_registrations\<rparr>)
                      ''user_event'' p)))
                 = calls s @ [PlaySound ''jingleBells'', ShowConfetti,
                              PlaySound ''jingleBells'', ShowConfetti])"
proof -
  let ?c = "c\<lparr>client_listeners := [(''user_event'', OnClientUserEvent)]\<rparr>"
  let ?rs = "rs\<lparr>session_listeners := session_registrations\<rparr>"
  obtain c0 where c0: "Resolved c = Resolved c0"
       "s2 = s1\<lparr>client := Some (c0\<lparr>client_listeners :=
                     client_listeners c0 @ [(''user_event'', OnClientUserEvent)]\<rparr>),
              calls := calls s1 @
                [Dial (js_get (audioSettings s1) ''echoCancellation'')
                      (js_get (audioSettings s1) ''noiseSuppression'')
                      (js_get (audioSettings s1) ''autoGainControl'')]\<rparr>"
    using startCall_client_Inr [OF assms(2)] by blast
  have s3: "s3 = s2\<lparr>roomSession := Some (rs\<lparr>session_listeners :=
                     session_listeners rs @ session_registrations\<rparr>),
              calls := calls s2 @ [SessionStart]\<rparr>"
    using startCall_dial_Inr [OF assms(3)] by auto
  have hc: "client s3 = Some ?c" using c0 s3 assms(4) by simp
  have hr: "roomSession s3 = Some ?rs" using s3 assms(5) by simp
  have k1: "handlers_for ''user_event'' (client_listeners ?c) = [OnClientUserEvent]"
    by (simp add: handlers_for_def)
  have k2: "handlers_for ''user_event'' (session_listeners ?rs) = [OnRoomUserEvent]"
    by (simp add: handlers_for_registrations)
  note tw = emit_user_event [OF k1 k2]
  have g: "calls (state_of (and_then (handleUserEvent p s) (handleUserEvent p)))
             = calls s @ [PlaySound ''jingleBells'', ShowConfetti,
                          PlaySound ''jingleBells'', ShowConfetti]"
    if ty: "js_read (eventData_of p) ''type'' = Some (JStr ''gift_selected'')"
      and gi: "js_prop (js_read (eventData_of p) ''gift'') ''image'' = Inr img"
      and j: "jingleBells (document s)" for p s img
  proof -
    obtain s' where s': "handleUserEvent p s = Normal s'"
        "calls s' = calls s @ [PlaySound ''jingleBells'', ShowConfetti]" "jingleBells (document s')"
      using handleUserEvent_gift_selected [OF ty gi j] by blast
    obtain s'' where s'': "handleUserEvent p s' = Normal s''"
        "calls s'' = calls s' @ [PlaySound ''jingleBells'', ShowConfetti]"
      using handleUserEvent_gift_selected [OF ty gi s'(3)] by blast
    show ?thesis by (simp add: s' s'' and_then_def)
  qed
  show ?thesis
    using hc hr k1 k2 g by (simp add: tw handlers_for_registrations)
qed

text \<open>C9, witness: a gift is selected during the concrete call.\<close>

theorem user_event_rendered_twice_witness:
  "startCall_enter example_state = Some awaiting_client
   \<and> startCall_client (Resolved example_client) awaiting_client = Inr awaiting_dial
   \<and> startCall_dial (Resolved example_session) awaiting_dial = Inr awaiting_start
   \<and> client_listeners example_client = []
   \<and> session_listeners example_session = []
   \<and> client awaiting_start = Some wired_client
   \<and> roomSession awaiting_start = Some wired_session
   \<and> calls (state_of (and_then
         (emit_client wired_client ''user_event'' (Some gift_selected_event) awaiting_start)
         (emit_session wired_session ''user_event'' (Some gift_selected_event))))
       = calls awaiting_start @ [PlaySound ''jingleBells'', ShowConfetti,
                                PlaySound ''jingleBells'', ShowConfetti]"
proof -
  note t = user_event_rendered_twice [OF awaiting_states awaiting_start_fields(2,3)]
  have wc: "example_client\<lparr>client_listeners := [(''user_event'', OnClientUserEvent)]\<rparr> = wired_client"
    by (simp add: wired_client_def)
  have ws: "example_session\<lparr>session_listeners := session_registrations\<rparr> = wired_session"
    by (simp add: wired_session_def)
  from t have a: "client awaiting_start = Some wired_client"
    "roomSession awaiting_start = Some wired_session"
    by (simp_all add: wc ws)
  from t have "\<forall>p s img.
             js_read (eventData_of p) ''type'' = Some (JStr ''gift_selected'')
             \<and> js_prop (js_read (eventData_of p) ''gift'') ''image'' = Inr img
             \<and> jingleBells (document s)
             \<longrightarrow> calls (state_of (and_then
                   (emit_client wired_client ''user_event'' p s)
                   (emit_session wired_session ''user_event'' p)))
                 = calls s @ [PlaySound ''jingleBells'', ShowConfetti,
                              PlaySound ''jingleBells'', ShowConfetti]"
    unfolding wc ws by blast
  then have b: "calls (state_of (and_then
         (emit_client wired_client ''user_event'' (Some gift_selected_event) awaiting_start)
         (emit_session wired_session ''user_event'' (Some gift_selected_event))))
       = calls awaiting_start @ [PlaySound ''jingleBells'', ShowConfetti,
                                PlaySound ''jingleBells'', ShowConfetti]"
    using gift_selected_reads awaiting_start_fields(1) by blast
  show ?thesis
    using a b awaiting_states awaiting_start_fields(2,3) by blast
qed

section \<open>Loading the audio settings\<close>

lemma JSON_parse_brace: "JSON_parse ''{'' = Inl SyntaxError"
  by code_simp

lemma js_prop_default:
  "js_prop (Some default_audioSettings) k = Inr (js_get default_audioSettings k)"
  by (simp add: default_audioSettings_def)

lemma initializeSettings_no_text:
  assumes "audioSettings s = default_audioSettings"
    and "localStorage s ''santaAudioSettings'' = None \<or> localStorage s ''santaAudioSettings'' = Some []"
  shows "\<exists>s'. initializeSettings s = Normal s' \<and> audioSettings s' = default_audioSettings"
  using assms
  by (auto simp: initializeSettings_def and_then_def js_prop_default)

lemma initializeSettings_parse_error:
  assumes "localStorage s ''santaAudioSettings'' = Some txt" and "txt \<noteq> []"
    and "JSON_parse txt = Inl e"
  shows "initializeSettings s = Throw e s"
  using assms by (simp add: initializeSettings_def and_then_def)

lemma bad_storage_fields:
  "audioSettings bad_storage = default_audioSettings"
  "localStorage bad_storage ''santaAudioSettings'' = Some ''{''"
  by (simp_all add: bad_storage_def example_state_def)

lemma example_state_fields:
  "audioSettings example_state = default_audioSettings"
  "localStorage example_state ''santaAudioSettings'' = None"
  by (simp_all add: example_state_def)

text \<open>
  C8 (as amended). At startup the settings are read from the key
  \<^verbatim>\<open>santaAudioSettings\<close>. When nothing or the empty text is stored there,
  \<^verbatim>\<open>initializeSettings\<close> returns and the settings in memory are the defaults. When the
  stored text fails to parse as JSON, the settings in memory are still the defaults, but
  \<^verbatim>\<open>initializeSettings\<close> throws the parse error in the state it was called in.
\<close>

theorem settings_loaded_at_startup:
  assumes "audioSettings s = default_audioSettings"
    and "localStorage s ''santaAudioSettings'' = None
         \<or> localStorage s ''santaAudioSettings'' = Some []
         \<or> (\<exists>txt e. localStorage s ''santaAudioSettings'' = Some txt \<and> txt \<noteq> []
               \<and> JSON_parse txt = Inl e)"
  shows "audioSettings (state_of (initializeSettings s)) = default_audioSettings
       \<and> (localStorage s ''santaAudioSettings'' = None
            \<or> localStorage s ''santaAudioSettings'' = Some []
            \<longrightarrow> (\<exists>s'. initializeSettings s = Normal s'))
       \<and> (\<forall>txt e. localStorage s ''santaAudioSettings'' = Some txt \<and> txt \<noteq> []
               \<and> JSON_parse txt = Inl e
            \<longrightarrow> initializeSettings s = Throw e s)"
proof -
  have a: "audioSettings (state_of (initializeSettings s)) = default_audioSettings"
    using assms(2)
  proof (elim disjE exE conjE)
    assume "localStorage s ''santaAudioSettings'' = None"
    then show ?thesis using initializeSettings_no_text [OF assms(1)] by auto
  next
    assume "localStorage s ''santaAudioSettings'' = Some []"
    then show ?thesis using initializeSettings_no_text [OF assms(1)] by auto
  next
    fix stored e
    assume "localStorage s ''santaAudioSettings'' = Some stored" "stored \<noteq> []"
      "JSON_parse stored = Inl e"
    then show ?thesis using assms(1) by (simp add: initializeSettings_parse_error)
  qed
  have b: "localStorage s ''santaAudioSettings'' = None
            \<or> localStorage s ''santaAudioSettings'' = Some []
            \<longrightarrow> (\<exists>s'. initializeSettings s = Normal s')"
    using initializeSettings_no_text [OF assms(1)] by blast
  have c: "\<forall>txt e. localStorage s ''santaAudioSettings'' = Some txt \<and> txt \<noteq> []
               \<and> JSON_parse txt = Inl e
            \<longrightarrow> initializeSettings s = Throw e s"
    by (simp add: initializeSettings_parse_error)
  show ?thesis using a b c by blast
qed

text \<open>C8, witness: nothing stored, and a stored text that is not JSON.\<close>

theorem settings_loaded_at_startup_witness:
  "audioSettings example_state = default_audioSettings
   \<and> localStorage example_state ''santaAudioSettings'' = None
   \<and> audioSettings (state_of (initializeSettings example_state)) = default_audioSettings
   \<and> (\<exists>s'. initializeSettings example_state = Normal s')
   \<and> audioSettings bad_storage = default_audioSettings
   \<and> localStorage bad_storage ''santaAudioSettings'' = Some ''{''
   \<and> JSON_parse ''{'' = Inl SyntaxError
   \<and> audioSettings (state_of (initializeSettings bad_storage)) = default_audioSettings
   \<and> initializeSettings bad_storage = Throw SyntaxError bad_storage"
proof -
  have h1: "localStorage example_state ''santaAudioSettings'' = None
         \<or> localStorage example_state ''santaAudioSettings'' = Some []
         \<or> (\<exists>txt e. localStorage example_state ''santaAudioSettings'' = Some txt \<and> txt \<noteq> []
               \<and> JSON_parse txt = Inl e)"
    by (simp add: example_state_fields)
  have h2: "localStorage bad_storage ''santaAudioSettings'' = None
         \<or> localStorage bad_storage ''santaAudioSettings'' = Some []
         \<or> (\<exists>txt e. localStorage bad_storage ''santaAudioSettings'' = Some txt \<and> txt \<noteq> []
               \<and> JSON_parse txt = Inl e)"
    by (simp add: bad_storage_fields JSON_parse_brace)
  note a = settings_loaded_at_startup [OF example_state_fields(1) h1]
  note b = settings_loaded_at_startup [OF bad_storage_fields(1) h2]
  have b': "initializeSettings bad_storage = Throw SyntaxError bad_storage"
    using b bad_storage_fields(2) JSON_parse_brace by auto
  show ?thesis
    using a b b' example_state_fields bad_storage_fields JSON_parse_brace by simp
qed

text \<open>
  C8, counterexample to the claim as stated: with an unparsable text stored, loading
  throws.
\<close>

theorem settings_parse_throws_counterexample:
  "initializeSettings bad_storage = Throw SyntaxError bad_storage"
  by (simp add: initializeSettings_parse_error [OF bad_storage_fields(2) _ JSON_parse_brace])

end
